theory Spec2Isabelle
  imports Main "HOL-Library.Sublist"
begin

section \<open>Python strings\<close>

text \<open>
  A Python \<open>str\<close> is a sequence of Unicode code points. The character predicates of the
  runtime (\<open>str.isalnum\<close>, \<open>str.isdigit\<close>, \<open>str.isspace\<close>, \<open>str.lower\<close>, the decimal value
  read by \<open>int\<close>) are fixed here on the ASCII range and taken from a table \<open>U\<close> above it, so
  that every statement holds for Cyrillic titles as well as for Latin ones.
\<close>

type_synonym codepoint = nat
type_synonym py_str = "codepoint list"

definition str :: "string \<Rightarrow> py_str" where
  "str cs = map of_char cs"

record unicode_db =
  uc_isalnum :: "codepoint \<Rightarrow> bool"
  uc_isdigit :: "codepoint \<Rightarrow> bool"
  uc_isspace :: "codepoint \<Rightarrow> bool"
  uc_decimal :: "codepoint \<Rightarrow> nat option"
  uc_lower :: "py_str \<Rightarrow> py_str"

definition isalnum :: "unicode_db \<Rightarrow> codepoint \<Rightarrow> bool" where
  "isalnum U c =
     (if c < 128 then (48 \<le> c \<and> c \<le> 57) \<or> (65 \<le> c \<and> c \<le> 90) \<or> (97 \<le> c \<and> c \<le> 122)
      else uc_isalnum U c)"

definition isdigit_char :: "unicode_db \<Rightarrow> codepoint \<Rightarrow> bool" where
  "isdigit_char U c = (if c < 128 then 48 \<le> c \<and> c \<le> 57 else uc_isdigit U c)"

text \<open>\<open>s.isdigit()\<close>: every character is a digit and there is at least one.\<close>

definition isdigit :: "unicode_db \<Rightarrow> py_str \<Rightarrow> bool" where
  "isdigit U s = (s \<noteq> [] \<and> list_all (isdigit_char U) s)"

definition isspace :: "unicode_db \<Rightarrow> codepoint \<Rightarrow> bool" where
  "isspace U c =
     (if c < 128 then (9 \<le> c \<and> c \<le> 13) \<or> (28 \<le> c \<and> c \<le> 32)
      else uc_isspace U c)"

definition decimal :: "unicode_db \<Rightarrow> codepoint \<Rightarrow> nat option" where
  "decimal U c =
     (if c < 128 then (if 48 \<le> c \<and> c \<le> 57 then Some (c - 48) else None)
      else uc_decimal U c)"

text \<open>
  \<open>s.lower()\<close> is character-wise on an ASCII string; on any other string it is the
  context-sensitive Unicode algorithm, read from the table.
\<close>

definition lower :: "unicode_db \<Rightarrow> py_str \<Rightarrow> py_str" where
  "lower U s =
     (if list_all (\<lambda>c. c < 128) s
      then map (\<lambda>c. if 65 \<le> c \<and> c \<le> 90 then c + 32 else c) s
      else uc_lower U s)"

definition rstrip :: "unicode_db \<Rightarrow> py_str \<Rightarrow> py_str" where
  "rstrip U s = rev (dropWhile (isspace U) (rev s))"

definition strip :: "unicode_db \<Rightarrow> py_str \<Rightarrow> py_str" where
  "strip U s = rstrip U (dropWhile (isspace U) s)"

text \<open>\<open>sep.join(parts)\<close>.\<close>

fun py_join :: "py_str \<Rightarrow> py_str list \<Rightarrow> py_str" where
  "py_join sep [] = []"
| "py_join sep [x] = x"
| "py_join sep (x # y # ys) = x @ sep @ py_join sep (y # ys)"

text \<open>\<open>sub in s\<close> on strings.\<close>

definition contains :: "py_str \<Rightarrow> py_str \<Rightarrow> bool" where
  "contains sub s = list_ex (\<lambda>i. take (length sub) (drop i s) = sub) [0..<Suc (length s)]"

text \<open>\<open>str(n)\<close> and the format \<open>{n:02d}\<close> of an integer.\<close>

fun digits :: "nat \<Rightarrow> py_str" where
  "digits n = (if n < 10 then [48 + n] else digits (n div 10) @ [48 + n mod 10])"

declare digits.simps [simp del]

definition str_int :: "int \<Rightarrow> py_str" where
  "str_int n = (if n < 0 then 45 # digits (nat (- n)) else digits (nat n))"

definition fmt_02d :: "int \<Rightarrow> py_str" where
  "fmt_02d n = (let s = str_int n in replicate (2 - length s) 48 @ s)"

text \<open>
  \<open>int(ds)\<close> on a string of digit characters: the value in base ten, or \<open>ValueError\<close>
  (here \<open>None\<close>) when a character is a digit without a decimal value, as a superscript two is.
\<close>

fun parse_decimal :: "unicode_db \<Rightarrow> nat \<Rightarrow> py_str \<Rightarrow> nat option" where
  "parse_decimal U acc [] = Some acc"
| "parse_decimal U acc (c # cs) =
     (case decimal U c of None \<Rightarrow> None | Some d \<Rightarrow> parse_decimal U (10 * acc + d) cs)"

text \<open>\<open>xs[:limit]\<close>: a negative limit counts from the end.\<close>

definition slice_to :: "int \<Rightarrow> 'a list \<Rightarrow> 'a list" where
  "slice_to limit xs =
     (if 0 \<le> limit then take (nat limit) xs else take (length xs - nat (- limit)) xs)"

text \<open>
  A table with nothing above ASCII. It is used only to evaluate the definitions on
  examples whose strings are ASCII, where the table is never consulted.
\<close>

definition ascii_db :: unicode_db where
  "ascii_db = \<lparr>uc_isalnum = (\<lambda>c. False), uc_isdigit = (\<lambda>c. False), uc_isspace = (\<lambda>c. False),
     uc_decimal = (\<lambda>c. None), uc_lower = (\<lambda>s. s)\<rparr>"


section \<open>Quality names (\<open>ZvukMultiBotCLI.normalize_quality\<close>)\<close>

definition quality_mapping :: "(py_str \<times> py_str) list" where
  "quality_mapping =
     [(str ''f'', str ''flac''), (str ''h'', str ''high''), (str ''m'', str ''mid''),
      (str ''flac'', str ''flac''), (str ''high'', str ''high''), (str ''mid'', str ''mid''),
      (str ''320'', str ''high''), (str ''128'', str ''mid'')]"

text \<open>The argument is \<open>None\<close> or a string; \<open>quality or ''\<close> turns \<open>None\<close> into the empty string.\<close>

definition normalize_quality :: "unicode_db \<Rightarrow> py_str option \<Rightarrow> py_str" where
  "normalize_quality U quality =
     (let q = lower U (strip U (case quality of None \<Rightarrow> [] | Some s \<Rightarrow> s))
      in case map_of quality_mapping q of Some v \<Rightarrow> v | None \<Rightarrow> str ''high'')"


section \<open>File names of tracks (\<open>ZvukMultiBot.download_track\<close>, the name clean-up)\<close>

definition keep_in_filename :: "unicode_db \<Rightarrow> codepoint \<Rightarrow> bool" where
  "keep_in_filename U c = (isalnum U c \<or> c \<in> set (str '' -_.''))"

definition sanitize_base_name :: "unicode_db \<Rightarrow> py_str \<Rightarrow> py_str" where
  "sanitize_base_name U base_name = rstrip U (filter (keep_in_filename U) base_name)"


section \<open>Release records\<close>

text \<open>
  A release as the service returns it: a dictionary whose keys may be absent (\<open>None\<close> here).
  The date is an integer \<open>YYYYMMDD\<close> or a string; \<open>truthy\<close> is Python's truth value of it and
  \<open>str_of\<close> is \<open>str(date_val)\<close>. An absent \<open>track_ids\<close> reads as the empty list.
\<close>

datatype jvalue = JInt int | JStr py_str

fun truthy :: "jvalue \<Rightarrow> bool" where
  "truthy (JInt n) = (n \<noteq> 0)"
| "truthy (JStr s) = (s \<noteq> [])"

fun str_of :: "jvalue \<Rightarrow> py_str" where
  "str_of (JInt n) = str_int n"
| "str_of (JStr s) = s"

record release_data =
  rd_title :: "py_str option"
  rd_date :: "jvalue option"
  rd_type :: "py_str option"
  rd_track_ids :: "int list"

section \<open>Folder name of a release (\<open>ZvukMultiBot.download_release\<close>)\<close>

definition release_title :: "int \<Rightarrow> release_data \<Rightarrow> py_str" where
  "release_title release_id release_data =
     (case rd_title release_data of Some t \<Rightarrow> t | None \<Rightarrow> str ''Release_'' @ str_int release_id)"

definition release_type :: "release_data \<Rightarrow> py_str" where
  "release_type release_data = (case rd_type release_data of Some t \<Rightarrow> t | None \<Rightarrow> [])"

definition year_str :: "unicode_db \<Rightarrow> release_data \<Rightarrow> py_str option" where
  "year_str U release_data =
     (case rd_date release_data of
        None \<Rightarrow> None
      | Some date_val \<Rightarrow>
          if truthy date_val then
            (let ds = str_of date_val
             in if 4 \<le> length ds \<and> isdigit U (take 4 ds) then Some (take 4 ds) else None)
          else None)"

definition label :: "release_data \<Rightarrow> py_str option" where
  "label release_data =
     (let track_ids = rd_track_ids release_data in
      if release_type release_data = str ''album'' then Some (str ''LP'')
      else if length track_ids = 1 then Some (str ''SINGLE'')
      else if 2 \<le> length track_ids \<and> length track_ids \<le> 6 then Some (str ''EP'')
      else None)"

definition name_parts :: "unicode_db \<Rightarrow> int \<Rightarrow> int option \<Rightarrow> release_data \<Rightarrow> py_str list" where
  "name_parts U release_id album_index release_data =
     (case album_index of
        Some i \<Rightarrow> if 0 < i then [fmt_02d i @ str ''.''] else []
      | None \<Rightarrow> []) @
     (case year_str U release_data of
        Some y \<Rightarrow> [str ''['' @ y @ str '']'']
      | None \<Rightarrow> []) @
     [release_title release_id release_data] @
     (case label release_data of
        Some l \<Rightarrow> [str ''['' @ l @ str '']'']
      | None \<Rightarrow> [])"

definition keep_in_foldername :: "unicode_db \<Rightarrow> codepoint \<Rightarrow> bool" where
  "keep_in_foldername U c = (isalnum U c \<or> c \<in> set (str '' -_.[]''))"

definition folder_name :: "unicode_db \<Rightarrow> int \<Rightarrow> int option \<Rightarrow> release_data \<Rightarrow> py_str" where
  "folder_name U release_id album_index release_data =
     rstrip U (filter (keep_in_foldername U)
       (py_join (str '' '') (name_parts U release_id album_index release_data)))"

section \<open>Choice of releases (\<open>ZvukMultiBotCLI.cmd_download_artist\<close>)\<close>

text \<open>
  \<open>releases_data\<close> is the dictionary of fetched releases in its iteration order, keyed by
  release id. \<open>filter_step\<close> is the body of the filter loop, \<open>albums_to_download\<close> the list
  after the sort and the cut.
\<close>

definition filter_step :: "bool \<Rightarrow> int \<times> release_data \<Rightarrow> (int \<times> release_data) list
    \<Rightarrow> (int \<times> release_data) list" where
  "filter_step skip_singles item albums_to_download =
     (let release_type = release_type (snd item);
          track_count = length (rd_track_ids (snd item))
      in if skip_singles then
           (if release_type = str ''album'' \<or> 7 \<le> track_count
            then albums_to_download @ [item] else albums_to_download)
         else albums_to_download @ [item])"

definition filter_releases :: "bool \<Rightarrow> (int \<times> release_data) list \<Rightarrow> (int \<times> release_data) list" where
  "filter_releases skip_singles releases_data = fold (filter_step skip_singles) releases_data []"

definition release_date_int :: "unicode_db \<Rightarrow> release_data \<Rightarrow> int" where
  "release_date_int U data =
     (case rd_date data of
        None \<Rightarrow> 99999999
      | Some dv \<Rightarrow>
          (let ds = take 8 (filter (isdigit_char U) (str_of dv))
           in if ds = [] then 99999999
              else (case parse_decimal U 0 ds of Some n \<Rightarrow> int n | None \<Rightarrow> 99999999)))"

text \<open>
  \<open>list.sort(key=..., reverse=True)\<close>: descending keys, elements with equal keys in their
  original order. The stable ascending sort on the negated key does exactly that.
\<close>

definition sort_reverse :: "('a \<Rightarrow> int) \<Rightarrow> 'a list \<Rightarrow> 'a list" where
  "sort_reverse key xs = sort_key (\<lambda>x. - key x) xs"

definition albums_to_download ::
    "unicode_db \<Rightarrow> bool \<Rightarrow> int \<Rightarrow> (int \<times> release_data) list \<Rightarrow> (int \<times> release_data) list" where
  "albums_to_download U skip_singles limit releases_data =
     slice_to limit
       (sort_reverse (\<lambda>pair. release_date_int U (snd pair))
          (filter_releases skip_singles releases_data))"

text \<open>
  The predicate in the words of the specification: typed as album by the service, or at
  least seven track ids.
\<close>

definition album_like :: "release_data \<Rightarrow> bool" where
  "album_like r = (rd_type r = Some (str ''album'') \<or> 7 \<le> length (rd_track_ids r))"


section \<open>Configuration and state of the bot (\<open>ZvukConfig\<close>, \<open>ZvukMultiBot.__init__\<close>)\<close>

text \<open>
  The state of a bot is its \<open>stats\<close> dictionary, together with what it has done to the
  outside: the waits it has slept (\<open>slept\<close>), what its own code has written to each path
  (\<open>files\<close>) and the order of its writes and lookups (\<open>trace\<close>). An exception raised inside a \<open>try\<close> block is a
  value \<open>Inl e\<close>: \<open>TimeoutError\<close> for \<open>asyncio.TimeoutError\<close>, \<open>OtherException\<close> for any other
  instance of \<open>Exception\<close>. Task cancellation and interpreter exit are not instances of
  \<open>Exception\<close>; they are not failures of a request and are outside the model.
\<close>

record zvuk_config =
  max_retries :: int
  retry_delay :: int
  download_path :: py_str

datatype py_exc = TimeoutError | OtherException

datatype sleep = Politeness | Wait int

datatype event =
    FileWrite py_str "nat list"
  | LyricsRequest int
  | CoverRequest py_str
  | TagWrite py_str
  | SidecarWrite py_str

record bot =
  requests_made :: int
  successful_downloads :: int
  failed_downloads :: int
  total_data_downloaded :: int
  metadata_embedded :: int
  covers_downloaded :: int
  slept :: "sleep list"
  files :: "py_str \<rightharpoonup> nat list"
  trace :: "event list"

section \<open>Transport (\<open>ZvukMultiBot.make_request\<close>)\<close>

text \<open>
  The network is a function \<open>net\<close> that gives, for each attempt of a request, what
  \<open>session.request\<close> does: it raises, or it answers with a status, a content type and the
  results of decoding the body as JSON, reading it as bytes and reading it as text (each of
  which may raise). The semaphore and the length of the random politeness delay are not
  modelled; the delay is the entry \<open>Politeness\<close> of \<open>slept\<close>.
\<close>

record 'j response =
  status :: int
  content_type :: py_str
  json_result :: "py_exc + 'j"
  read_result :: "py_exc + nat list"
  text_result :: "py_exc + py_str"

datatype 'j payload = Json 'j | Binary "nat list" py_str

datatype 'j step = Return "'j payload" | Continue | Fallthrough

text \<open>
  The body of the \<open>try\<close> block for one attempt: it returns a payload, continues after the
  cool-down of status 418, falls through to the code after the handlers, or raises.
\<close>

definition attempt_body ::
    "zvuk_config \<Rightarrow> nat \<Rightarrow> py_exc + 'j response \<Rightarrow> bot \<Rightarrow> (py_exc + 'j step) \<times> bot" where
  "attempt_body cfg attempt outcome st =
     (let st1 = st\<lparr>requests_made := requests_made st + 1\<rparr> in
      case outcome of
        Inl e \<Rightarrow> (Inl e, st1)
      | Inr r \<Rightarrow>
          if status r = 418 then
            (Inr Continue,
             st1\<lparr>slept := slept st1 @ [Wait (retry_delay cfg * (int attempt + 1) * 2)]\<rparr>)
          else if status r = 200 then
            (if contains (str ''application/json'') (content_type r) then
               (case json_result r of
                  Inl e \<Rightarrow> (Inl e, st1)
                | Inr data \<Rightarrow> (Inr (Return (Json data)), st1))
             else
               (case read_result r of
                  Inl e \<Rightarrow> (Inl e, st1)
                | Inr data \<Rightarrow> (Inr (Return (Binary data (content_type r))), st1)))
          else
            (case text_result r of
               Inl e \<Rightarrow> (Inl e, st1)
             | Inr t \<Rightarrow> (Inr Fallthrough, st1)))"

text \<open>The two \<open>except\<close> clauses: both log and fall through.\<close>

fun handlers :: "py_exc + 'j step \<Rightarrow> 'j step" where
  "handlers (Inr s) = s"
| "handlers (Inl TimeoutError) = Fallthrough"
| "handlers (Inl OtherException) = Fallthrough"

definition inter_attempt_delay :: "zvuk_config \<Rightarrow> nat \<Rightarrow> bot \<Rightarrow> bot" where
  "inter_attempt_delay cfg attempt st =
     (if int attempt < max_retries cfg - 1
      then st\<lparr>slept := slept st @ [Wait (retry_delay cfg * (int attempt + 1))]\<rparr>
      else st)"

function request_loop ::
    "zvuk_config \<Rightarrow> (nat \<Rightarrow> py_exc + 'j response) \<Rightarrow> nat \<Rightarrow> bot \<Rightarrow> 'j payload option \<times> bot" where
  "request_loop cfg net attempt st =
     (if int attempt < max_retries cfg then
        (case attempt_body cfg attempt (net attempt) st of
           (r, st1) \<Rightarrow>
             (case handlers r of
                Return p \<Rightarrow> (Some p, st1)
              | Continue \<Rightarrow> request_loop cfg net (Suc attempt) st1
              | Fallthrough \<Rightarrow>
                  request_loop cfg net (Suc attempt) (inter_attempt_delay cfg attempt st1)))
      else (None, st))"
  by pat_completeness auto
termination
  by (relation "measure (\<lambda>(cfg, net, attempt, st). nat (max_retries cfg - int attempt))") auto

declare request_loop.simps [simp del]

definition make_request ::
    "zvuk_config \<Rightarrow> (py_str \<Rightarrow> py_str \<Rightarrow> 'k \<Rightarrow> nat \<Rightarrow> py_exc + 'j response) \<Rightarrow>
     py_str \<Rightarrow> py_str \<Rightarrow> 'k \<Rightarrow> bot \<Rightarrow> 'j payload option \<times> bot" where
  "make_request cfg net http_method endpoint kwargs st =
     request_loop cfg (net http_method endpoint kwargs) 0 (st\<lparr>slept := slept st @ [Politeness]\<rparr>)"

text \<open>The initial state, as \<open>__init__\<close> sets it.\<close>

definition new_bot :: bot where
  "new_bot = \<lparr>requests_made = 0, successful_downloads = 0, failed_downloads = 0,
     total_data_downloaded = 0, metadata_embedded = 0, covers_downloaded = 0,
     slept = [], files = Map.empty, trace = []\<rparr>"

text \<open>
  An attempt fails when the request raises (a timeout or any other exception), when the
  status is not 200, or when the status is 200 and decoding the body raises.
\<close>

definition attempt_fails :: "py_exc + 'j response \<Rightarrow> bool" where
  "attempt_fails outcome =
     (case outcome of
        Inl e \<Rightarrow> True
      | Inr r \<Rightarrow>
          status r \<noteq> 200 \<or>
          (if contains (str ''application/json'') (content_type r)
           then isl (json_result r) else isl (read_result r)))"


section \<open>Tracks and releases of the bot (\<open>download_track\<close>, \<open>_embed_track_metadata\<close>, \<open>download_release\<close>)\<close>

text \<open>
  A track record with the keys the bot reads; an absent key is \<open>None\<close>. The value under
  \<open>image\<close> is absent, a dictionary (with its \<open>src\<close>, if it has one), or something else (null, a
  string, a list), on which \<open>.get\<close> raises. \<open>td_other_keys\<close> tells whether the dictionary has
  keys besides these; a dictionary with no key at all counts as false in a test
  (\<open>track_empty\<close>). A \<open>reply\<close> is what a lookup by id gives: nothing usable (\<open>None\<close> or no
  \<open>result\<close> key), an exception while indexing the reply, no record under the id, or the
  record.
\<close>

datatype image_value = ImageAbsent | ImageDict "py_str option" | ImageOther

record track_data =
  td_artist_names :: "py_str list option"
  td_title :: "py_str option"
  td_image :: image_value
  td_position :: "int option"
  td_other_keys :: bool

definition track_empty :: "track_data \<Rightarrow> bool" where
  "track_empty track_data =
     (td_artist_names track_data = None \<and> td_title track_data = None \<and>
      td_image track_data = ImageAbsent \<and> td_position track_data = None \<and>
      \<not> td_other_keys track_data)"

datatype 'a reply = NoResult | Broken py_exc | Missing | Found 'a

text \<open>
  The answer to the \<open>GET\<close> of the stream: its status, the chunks that arrive, and the exception
  that ends the iteration or a write after them, if any.
\<close>

record stream_response =
  sr_status :: int
  sr_chunks :: "nat list list"
  sr_error :: "py_exc option"

text \<open>
  Everything the bot awaits or calls outside its own three functions is a field of
  \<open>service\<close>, which gives the result of the call or the exception it raises. The lookups
  \<open>get_tracks\<close>, \<open>get_releases\<close>, \<open>get_stream_url\<close> and \<open>get_lyrics\<close> go through \<open>make_request\<close>,
  whose own counter and waits are left out here. The quality checker, the extension table
  and the metadata manager belong to the module \<open>audio_metadata\<close>, which is not part of the
  sources at hand: their results are parameters. \<open>quality_results\<close> is read as the function
  that tells whether a tier is marked available.
\<close>

record service =
  sv_get_tracks :: "int \<Rightarrow> track_data reply"
  sv_get_releases :: "int \<Rightarrow> (release_data \<times> (int \<times> track_data) list) reply"
  sv_check_track_qualities :: "int \<Rightarrow> py_exc + (py_str \<Rightarrow> bool)"
  sv_get_best_available_quality :: "(py_str \<Rightarrow> bool) \<Rightarrow> py_str option"
  sv_get_stream_url :: "int \<Rightarrow> py_str \<Rightarrow> py_exc + py_str option"
  sv_get_file_extension_for_quality :: "py_str \<Rightarrow> py_str"
  sv_mkdir :: "py_str \<Rightarrow> py_exc option"
  sv_session_get :: "py_str \<Rightarrow> py_exc + stream_response"
  sv_open_wb :: "py_str \<Rightarrow> py_exc option"
  sv_stat :: "py_str \<Rightarrow> py_exc option"
  sv_get_lyrics :: "int \<Rightarrow> py_exc + py_str option"
  sv_split_lyrics_formats :: "py_str \<Rightarrow> py_exc + py_str option \<times> py_str option"
  sv_download_cover_art :: "py_str \<Rightarrow> py_exc + nat list option"
  sv_optimize_cover_image :: "nat list \<Rightarrow> py_exc + nat list"
  sv_embed_metadata ::
    "py_str \<Rightarrow> track_data \<Rightarrow> py_str option \<Rightarrow> nat list option \<Rightarrow> py_str option \<Rightarrow> py_exc + bool"
  sv_lrc_to_srt :: "py_str \<Rightarrow> py_exc + py_str"
  sv_write_text :: "py_str \<Rightarrow> py_str \<Rightarrow> py_exc option"
  sv_with_suffix :: "py_str \<Rightarrow> py_str \<Rightarrow> py_str"

text \<open>The arguments of \<open>download_track\<close>.\<close>

record track_args =
  ta_track_id :: int
  ta_quality :: py_str
  ta_custom_filename :: "py_str option"
  ta_embed_metadata :: bool
  ta_download_cover :: bool
  ta_target_dir :: "py_str option"
  ta_position :: "int option"
  ta_save_lyrics :: bool
  ta_save_subtitles :: bool

text \<open>
  How a piece of a function body ends: with a \<open>return\<close>, by falling out of the \<open>try\<close> block,
  with an exception, or by going on with a value.
\<close>

datatype 'a flow = Returned bool | FellThrough | Raised py_exc | Next 'a

definition truthy_str :: "py_str option \<Rightarrow> bool" where
  "truthy_str s = (case s of None \<Rightarrow> False | Some t \<Rightarrow> t \<noteq> [])"

text \<open>
  \<open>Path(dir) / name\<close> on POSIX paths: an absolute \<open>name\<close> replaces the directory. The
  spelling that \<open>Path\<close> normalises (a leading \<open>./\<close>, doubled slashes) is kept as written.
\<close>

definition path_join :: "py_str \<Rightarrow> py_str \<Rightarrow> py_str" where
  "path_join dir name =
     (case name of
        [] \<Rightarrow> dir @ str ''/'' @ name
      | c # cs \<Rightarrow> if c = 47 then name else dir @ str ''/'' @ name)"

text \<open>Lines 347-359: the quality to ask the stream for, or the early \<open>return False\<close>.\<close>

definition resolve_quality :: "service \<Rightarrow> track_args \<Rightarrow> py_str flow" where
  "resolve_quality sv a =
     (if ta_embed_metadata a then
        (case sv_check_track_qualities sv (ta_track_id a) of
           Inl e \<Rightarrow> Raised e
         | Inr quality_results \<Rightarrow>
             if \<not> quality_results (ta_quality a) then
               (case sv_get_best_available_quality sv quality_results of
                  None \<Rightarrow> Returned False
                | Some best_quality \<Rightarrow>
                    if best_quality \<noteq> [] then Next best_quality else Returned False)
             else Next (ta_quality a))
      else Next (ta_quality a))"

text \<open>Lines 371-384: the file name; \<open>artist_names[0]\<close> raises on an empty list.\<close>

definition track_filename ::
    "unicode_db \<Rightarrow> service \<Rightarrow> track_args \<Rightarrow> track_data \<Rightarrow> py_str \<Rightarrow> py_exc + py_str" where
  "track_filename U sv a track_data quality =
     (if truthy_str (ta_custom_filename a) then Inr (case ta_custom_filename a of Some f \<Rightarrow> f | None \<Rightarrow> [])
      else
        (case (case td_artist_names track_data of None \<Rightarrow> [str ''Unknown''] | Some ns \<Rightarrow> ns) of
           [] \<Rightarrow> Inl OtherException
         | artist # others \<Rightarrow>
             (let title = (case td_title track_data of None \<Rightarrow> str ''Unknown'' | Some t \<Rightarrow> t);
                  extension = drop 1 (sv_get_file_extension_for_quality sv quality);
                  base_name = sanitize_base_name U (artist @ str '' - '' @ title @ str ''.'' @ extension)
              in Inr (case ta_position a of
                        None \<Rightarrow> base_name
                      | Some position \<Rightarrow>
                          if 0 < position then fmt_02d position @ str ''. '' @ base_name
                          else base_name))))"

text \<open>Lines 394-396: the write loop, one chunk at a time, each appended to the file.\<close>

fun write_chunks :: "py_str \<Rightarrow> nat list list \<Rightarrow> bot \<Rightarrow> bot" where
  "write_chunks filepath [] st = st"
| "write_chunks filepath (chunk # chunks) st =
     write_chunks filepath chunks
       (st\<lparr>files := (files st)(filepath \<mapsto>
                       (case files st filepath of None \<Rightarrow> chunk | Some written \<Rightarrow> written @ chunk)),
           trace := trace st @ [FileWrite filepath chunk],
           total_data_downloaded := total_data_downloaded st + int (length chunk)\<rparr>)"

text \<open>
  Lines 336-396: everything up to the end of the write loop. \<open>Next (filepath, track_data)\<close>
  means that the stream answered 200, the file was opened (and so emptied) and every chunk
  was written.
\<close>

definition stream_to_disk ::
    "unicode_db \<Rightarrow> zvuk_config \<Rightarrow> service \<Rightarrow> track_args \<Rightarrow> bot \<Rightarrow> (py_str \<times> track_data) flow \<times> bot" where
  "stream_to_disk U cfg sv a st =
     (case sv_get_tracks sv (ta_track_id a) of
        NoResult \<Rightarrow> (Returned False, st)
      | Broken e \<Rightarrow> (Raised e, st)
      | Missing \<Rightarrow> (Returned False, st)
      | Found track_data \<Rightarrow>
          if track_empty track_data then (Returned False, st)
          else
          (case resolve_quality sv a of
             Returned b \<Rightarrow> (Returned b, st)
           | FellThrough \<Rightarrow> (FellThrough, st)
           | Raised e \<Rightarrow> (Raised e, st)
           | Next quality \<Rightarrow>
               (case sv_get_stream_url sv (ta_track_id a) quality of
                  Inl e \<Rightarrow> (Raised e, st)
                | Inr stream_url \<Rightarrow>
                    if \<not> truthy_str stream_url then (Returned False, st)
                    else
                      (let dest_dir = (if truthy_str (ta_target_dir a)
                                       then (case ta_target_dir a of Some d \<Rightarrow> d | None \<Rightarrow> [])
                                       else download_path cfg)
                       in case sv_mkdir sv dest_dir of
                            Some e \<Rightarrow> (Raised e, st)
                          | None \<Rightarrow>
                              (case track_filename U sv a track_data quality of
                                 Inl e \<Rightarrow> (Raised e, st)
                               | Inr filename \<Rightarrow>
                                   (let filepath = path_join dest_dir filename
                                    in case sv_session_get sv
                                              (case stream_url of Some u \<Rightarrow> u | None \<Rightarrow> []) of
                                         Inl e \<Rightarrow> (Raised e, st)
                                       | Inr response \<Rightarrow>
                                           if sr_status response = 200 then
                                             (case sv_open_wb sv filepath of
                                                Some e \<Rightarrow> (Raised e, st)
                                              | None \<Rightarrow>
                                                  (let st1 = write_chunks filepath (sr_chunks response)
                                                               (st\<lparr>files := (files st)(filepath \<mapsto> [])\<rparr>)
                                                   in case sr_error response of
                                                        Some e \<Rightarrow> (Raised e, st1)
                                                      | None \<Rightarrow> (Next (filepath, track_data), st1)))
                                           else (FellThrough, st)))))))"

text \<open>\<open>path.write_text(...)\<close>: unless it raises, the file holds the text and nothing else.\<close>

definition write_text :: "service \<Rightarrow> py_str \<Rightarrow> py_str \<Rightarrow> bot \<Rightarrow> py_exc option \<times> bot" where
  "write_text sv path content st =
     (case sv_write_text sv path content of
        Some e \<Rightarrow> (Some e, st)
      | None \<Rightarrow>
          (None, st\<lparr>files := (files st)(path \<mapsto> content), trace := trace st @ [SidecarWrite path]\<rparr>))"

text \<open>Lines 441-452 of \<open>_embed_track_metadata\<close>: \<open>(lyrics, lrc_text)\<close> after the first inner \<open>try\<close>.\<close>

definition fetch_lyrics ::
    "service \<Rightarrow> int \<Rightarrow> bot \<Rightarrow> (py_str option \<times> py_str option) \<times> bot" where
  "fetch_lyrics sv track_id st =
     (let st1 = st\<lparr>trace := trace st @ [LyricsRequest track_id]\<rparr> in
      case sv_get_lyrics sv track_id of
        Inl e \<Rightarrow> ((None, None), st1)
      | Inr lyrics \<Rightarrow>
          if truthy_str lyrics then
            (case sv_split_lyrics_formats sv (case lyrics of Some l \<Rightarrow> l | None \<Rightarrow> []) of
               Inl e \<Rightarrow> ((lyrics, None), st1)
             | Inr (plain_text, lrc_text) \<Rightarrow>
                 ((if truthy_str plain_text then plain_text else lyrics, lrc_text), st1))
          else ((lyrics, None), st1))"

text \<open>
  Lines 455-466: \<open>cover_data\<close>. The test of line 456 is outside the inner \<open>try\<close>: when
  \<open>download_cover\<close> is set and the value under \<open>image\<close> is not a dictionary, \<open>.get\<close> raises
  and the exception leaves the body. The download itself is inside the inner \<open>try\<close>.
\<close>

definition fetch_cover ::
    "service \<Rightarrow> track_data \<Rightarrow> bool \<Rightarrow> bot \<Rightarrow> (py_exc + nat list option) \<times> bot" where
  "fetch_cover sv track_data download_cover st =
     (if download_cover then
        (case td_image track_data of
           ImageOther \<Rightarrow> (Inl OtherException, st)
         | ImageAbsent \<Rightarrow> (Inr None, st)
         | ImageDict src \<Rightarrow>
             if truthy_str src then
               (let cover_url = (case src of Some u \<Rightarrow> u | None \<Rightarrow> []);
                    st1 = st\<lparr>trace := trace st @ [CoverRequest cover_url]\<rparr>
                in case sv_download_cover_art sv cover_url of
                     Inl e \<Rightarrow> (Inr None, st1)
                   | Inr None \<Rightarrow> (Inr None, st1)
                   | Inr (Some cover_data) \<Rightarrow>
                       if cover_data \<noteq> [] then
                         (case sv_optimize_cover_image sv cover_data of
                            Inl e \<Rightarrow> (Inr (Some cover_data), st1)
                          | Inr optimized \<Rightarrow>
                              (Inr (Some optimized),
                               st1\<lparr>covers_downloaded := covers_downloaded st1 + 1\<rparr>))
                       else (Inr (Some cover_data), st1))
             else (Inr None, st))
      else (Inr None, st))"

text \<open>Lines 476-496: the files beside the track, inside the third inner \<open>try\<close>.\<close>

definition save_beside ::
    "service \<Rightarrow> py_str \<Rightarrow> py_str option \<Rightarrow> py_str option \<Rightarrow> bool \<Rightarrow> bool \<Rightarrow> bot \<Rightarrow> bot" where
  "save_beside sv filepath lyrics lrc_text save_lyrics save_subtitles st =
     (if (save_lyrics \<or> save_subtitles) \<and> (truthy_str lyrics \<or> truthy_str lrc_text) then
        (case (if save_lyrics then
                 (if truthy_str lrc_text
                  then write_text sv (sv_with_suffix sv filepath (str ''.lrc''))
                         (case lrc_text of Some l \<Rightarrow> l | None \<Rightarrow> []) st
                  else write_text sv (sv_with_suffix sv filepath (str ''.txt''))
                         (case lyrics of Some l \<Rightarrow> l | None \<Rightarrow> []) st)
               else (None, st)) of
           (Some e, st1) \<Rightarrow> st1
         | (None, st1) \<Rightarrow>
             if save_subtitles \<and> truthy_str lrc_text then
               (case sv_lrc_to_srt sv (case lrc_text of Some l \<Rightarrow> l | None \<Rightarrow> []) of
                  Inl e \<Rightarrow> st1
                | Inr srt_text \<Rightarrow>
                    if srt_text \<noteq> []
                    then snd (write_text sv (sv_with_suffix sv filepath (str ''.srt'')) srt_text st1)
                    else st1)
             else st1)
      else st)"

text \<open>
  The body of the outer \<open>try\<close> of \<open>_embed_track_metadata\<close>: the exception that leaves it, if
  any, and the state at that point. The test of the cover source and the tag write are
  outside the inner \<open>try\<close> blocks.
\<close>

definition embed_body ::
    "service \<Rightarrow> py_str \<Rightarrow> track_data \<Rightarrow> int \<Rightarrow> bool \<Rightarrow> bool \<Rightarrow> bool \<Rightarrow> bot \<Rightarrow> py_exc option \<times> bot" where
  "embed_body sv filepath track_data track_id download_cover save_lyrics save_subtitles st =
     (case fetch_lyrics sv track_id st of
        ((lyrics, lrc_text), st1) \<Rightarrow>
          (case fetch_cover sv track_data download_cover st1 of
             (Inl e, st2) \<Rightarrow> (Some e, st2)
           | (Inr cover_data, st2) \<Rightarrow>
               (let st3 = st2\<lparr>trace := trace st2 @ [TagWrite filepath]\<rparr> in
                case sv_embed_metadata sv filepath track_data lyrics cover_data lrc_text of
                  Inl e \<Rightarrow> (Some e, st3)
                | Inr ok \<Rightarrow>
                    (None,
                     save_beside sv filepath lyrics lrc_text save_lyrics save_subtitles
                       (if ok then st3\<lparr>metadata_embedded := metadata_embedded st3 + 1\<rparr>
                        else st3)))))"

text \<open>\<open>_embed_track_metadata\<close>: the outer handler logs the exception and returns.\<close>

definition embed_track_metadata ::
    "service \<Rightarrow> py_str \<Rightarrow> track_data \<Rightarrow> int \<Rightarrow> bool \<Rightarrow> bool \<Rightarrow> bool \<Rightarrow> bot \<Rightarrow> bot" where
  "embed_track_metadata sv filepath track_data track_id download_cover save_lyrics save_subtitles st =
     (case embed_body sv filepath track_data track_id download_cover save_lyrics save_subtitles st of
        (Some e, st1) \<Rightarrow> st1
      | (None, st1) \<Rightarrow> st1)"

text \<open>Lines 406-425: lyrics and subtitles beside the file when no metadata is embedded.\<close>

definition save_without_metadata ::
    "service \<Rightarrow> py_str \<Rightarrow> int \<Rightarrow> bool \<Rightarrow> bool \<Rightarrow> bot \<Rightarrow> bot" where
  "save_without_metadata sv filepath track_id save_lyrics save_subtitles st =
     (if save_lyrics \<or> save_subtitles then
        (let st1 = st\<lparr>trace := trace st @ [LyricsRequest track_id]\<rparr> in
         case sv_get_lyrics sv track_id of
           Inl e \<Rightarrow> st1
         | Inr lyrics_raw \<Rightarrow>
             if truthy_str lyrics_raw then
               (case sv_split_lyrics_formats sv (case lyrics_raw of Some l \<Rightarrow> l | None \<Rightarrow> []) of
                  Inl e \<Rightarrow> st1
                | Inr (plain_text, lrc_text) \<Rightarrow>
                    (case (if save_lyrics then
                             (if truthy_str lrc_text
                              then write_text sv (sv_with_suffix sv filepath (str ''.lrc''))
                                     (case lrc_text of Some l \<Rightarrow> l | None \<Rightarrow> []) st1
                              else if truthy_str plain_text
                              then write_text sv (sv_with_suffix sv filepath (str ''.txt''))
                                     (case plain_text of Some l \<Rightarrow> l | None \<Rightarrow> []) st1
                              else (None, st1))
                           else (None, st1)) of
                       (Some e, st2) \<Rightarrow> st2
                     | (None, st2) \<Rightarrow>
                         if save_subtitles \<and> truthy_str lrc_text then
                           (case sv_lrc_to_srt sv (case lrc_text of Some l \<Rightarrow> l | None \<Rightarrow> []) of
                              Inl e \<Rightarrow> st2
                            | Inr srt_text \<Rightarrow>
                                if srt_text \<noteq> []
                                then snd (write_text sv (sv_with_suffix sv filepath (str ''.srt''))
                                            srt_text st2)
                                else st2)
                         else st2))
             else st1)
      else st)"

text \<open>
  Lines 398-427: what follows the write loop. \<open>filepath.stat()\<close> may raise, before the
  success is counted; otherwise the function reaches \<open>return True\<close>.
\<close>

definition after_write ::
    "service \<Rightarrow> track_args \<Rightarrow> py_str \<Rightarrow> track_data \<Rightarrow> bot \<Rightarrow> py_exc option \<times> bot" where
  "after_write sv a filepath track_data st =
     (case sv_stat sv filepath of
        Some e \<Rightarrow> (Some e, st)
      | None \<Rightarrow>
          (let st1 = st\<lparr>successful_downloads := successful_downloads st + 1\<rparr>
           in (None,
               if ta_embed_metadata a
               then embed_track_metadata sv filepath track_data (ta_track_id a) (ta_download_cover a)
                      (ta_save_lyrics a) (ta_save_subtitles a) st1
               else save_without_metadata sv filepath (ta_track_id a)
                      (ta_save_lyrics a) (ta_save_subtitles a) st1)))"

text \<open>
  \<open>download_track\<close>: an early \<open>return\<close> leaves the counters alone; a status other than 200
  and every exception of the outer \<open>try\<close> count as a failed download.
\<close>

definition download_track ::
    "unicode_db \<Rightarrow> zvuk_config \<Rightarrow> service \<Rightarrow> track_args \<Rightarrow> bot \<Rightarrow> bool \<times> bot" where
  "download_track U cfg sv a st =
     (case stream_to_disk U cfg sv a st of
        (Next (filepath, track_data), st1) \<Rightarrow>
          (case after_write sv a filepath track_data st1 of
             (None, st2) \<Rightarrow> (True, st2)
           | (Some e, st2) \<Rightarrow> (False, st2\<lparr>failed_downloads := failed_downloads st2 + 1\<rparr>))
      | (Returned b, st1) \<Rightarrow> (b, st1)
      | (FellThrough, st1) \<Rightarrow> (False, st1\<lparr>failed_downloads := failed_downloads st1 + 1\<rparr>)
      | (Raised e, st1) \<Rightarrow> (False, st1\<lparr>failed_downloads := failed_downloads st1 + 1\<rparr>))"






text \<open>
  \<open>quiet st st'\<close>: from \<open>st\<close> to \<open>st'\<close> no chunk was written to an audio file, the download
  counters and the byte count stayed as they were, and a path holds what it held unless a
  side file was written to that very path (and then it still holds something).
\<close>

fun is_file_write :: "event \<Rightarrow> bool" where
  "is_file_write (FileWrite path chunk) = True"
| "is_file_write e = False"

definition quiet :: "bot \<Rightarrow> bot \<Rightarrow> bool" where
  "quiet st st' =
     (successful_downloads st' = successful_downloads st \<and>
      failed_downloads st' = failed_downloads st \<and>
      total_data_downloaded st' = total_data_downloaded st \<and>
      (\<exists>later. trace st' = trace st @ later \<and> list_all (\<lambda>e. \<not> is_file_write e) later \<and>
         (\<forall>path. files st' path = files st path \<or>
            (SidecarWrite path \<in> set later \<and> files st' path \<noteq> None))))"

text \<open>
  A service for the examples: every track is found, only the tier \<open>high\<close> is available, the
  stream of track 2 cannot be located, and every step of the metadata embedding raises.
\<close>

definition demo_config :: zvuk_config where
  "demo_config = \<lparr>max_retries = 5, retry_delay = 3, download_path = str ''./downloads''\<rparr>"

definition demo_track :: track_data where
  "demo_track = \<lparr>td_artist_names = Some [str ''Artist''], td_title = Some (str ''Song''),
     td_image = ImageDict (Some (str ''https://cdn/cover'')), td_position = Some 1,
     td_other_keys = True\<rparr>"

definition demo_service :: service where
  "demo_service =
     \<lparr>sv_get_tracks = (\<lambda>track_id. Found demo_track),
      sv_get_releases = (\<lambda>release_id.
         Found (\<lparr>rd_title = Some (str ''Trio''), rd_date = Some (JInt 20240301),
                  rd_type = Some (str ''single''), rd_track_ids = [1, 2, 3]\<rparr>,
                [(1, demo_track), (2, demo_track), (3, demo_track)])),
      sv_check_track_qualities = (\<lambda>track_id. Inr (\<lambda>quality. quality = str ''high'')),
      sv_get_best_available_quality = (\<lambda>quality_results. Some (str ''high'')),
      sv_get_stream_url = (\<lambda>track_id quality.
         if track_id = 2 then Inr None else Inr (Some (str ''https://cdn/stream''))),
      sv_get_file_extension_for_quality = (\<lambda>quality. str ''.mp3''),
      sv_mkdir = (\<lambda>path. None),
      sv_session_get = (\<lambda>url. Inr \<lparr>sr_status = 200, sr_chunks = [[1, 2, 3], [4, 5]], sr_error = None\<rparr>),
      sv_open_wb = (\<lambda>path. None),
      sv_stat = (\<lambda>path. None),
      sv_get_lyrics = (\<lambda>track_id. Inl TimeoutError),
      sv_split_lyrics_formats = (\<lambda>lyrics. Inl OtherException),
      sv_download_cover_art = (\<lambda>url. Inl OtherException),
      sv_optimize_cover_image = (\<lambda>data. Inl OtherException),
      sv_embed_metadata = (\<lambda>path track_data lyrics cover lrc. Inl OtherException),
      sv_lrc_to_srt = (\<lambda>lrc. Inl OtherException),
      sv_write_text = (\<lambda>path content. Some OtherException),
      sv_with_suffix = (\<lambda>path suffix. path @ suffix)\<rparr>"


text \<open>The same service when the value under \<open>image\<close> of every track is null.\<close>

definition demo_service_null_image :: service where
  "demo_service_null_image =
     demo_service\<lparr>sv_get_tracks := (\<lambda>track_id. Found (demo_track\<lparr>td_image := ImageOther\<rparr>))\<rparr>"

definition demo_args :: track_args where
  "demo_args = \<lparr>ta_track_id = 1, ta_quality = str ''flac'', ta_custom_filename = None,
     ta_embed_metadata = True, ta_download_cover = True, ta_target_dir = None,
     ta_position = None, ta_save_lyrics = True, ta_save_subtitles = True\<rparr>"


section \<open>The first downloader (\<open>SberZvukDownloader.download_track\<close> in ZvukDownloader.py)\<close>

text \<open>
  The configuration file, a track record, the state of the downloader (the list
  \<open>failed_tracks\<close>, the requests sent and the files saved) and the answers of the service:
  \<open>web_stream\<close> is the lookup of the stream location with \<open>raise_for_status\<close> and the
  indexing of the reply, \<open>web_fetch\<close> the download with the write of the file,
  \<open>web_add_metadata\<close> the exception inside \<open>add_metadata\<close>, if any. \<open>add_lyrics\<close> catches its
  exceptions and changes none of the three fields; it is left out.
\<close>

record downloader_config =
  cfg_format :: "py_str option"
  cfg_lyrics :: bool
  cfg_fallback_to_lower_quality :: bool
  cfg_download_path :: "py_str option"

record track_info =
  ti_id :: int
  ti_title :: py_str
  ti_has_flac :: "bool option"
  ti_artist_names :: "py_str list"

datatype web_request = StreamLookup int py_str | Fetch py_str

record downloader =
  failed_tracks :: "int list"
  requested :: "web_request list"
  saved :: "py_str list"

record web =
  web_stream :: "int \<Rightarrow> py_str \<Rightarrow> py_exc + py_str"
  web_fetch :: "py_str \<Rightarrow> py_exc + nat list"
  web_add_metadata :: "py_str \<Rightarrow> py_exc option"

definition preferred_format :: "downloader_config \<Rightarrow> py_str" where
  "preferred_format config =
     (if (case cfg_format config of None \<Rightarrow> str ''1'' | Some f \<Rightarrow> f) = str ''1''
      then str ''flac'' else str ''high'')"

definition available_format :: "track_info \<Rightarrow> py_str" where
  "available_format track_info =
     (if (case ti_has_flac track_info of None \<Rightarrow> False | Some b \<Rightarrow> b)
      then str ''flac'' else str ''high'')"

definition add_metadata :: "web \<Rightarrow> py_str \<Rightarrow> track_info \<Rightarrow> downloader \<Rightarrow> downloader" where
  "add_metadata w file_path track_info st =
     (case web_add_metadata w file_path of
        None \<Rightarrow> st
      | Some e \<Rightarrow> st\<lparr>failed_tracks := failed_tracks st @ [ti_id track_info]\<rparr>)"

definition downloader_download_track ::
    "downloader_config \<Rightarrow> web \<Rightarrow> track_info option \<Rightarrow> downloader \<Rightarrow> downloader" where
  "downloader_download_track config w track_info_opt st =
     (case track_info_opt of
        None \<Rightarrow> st
      | Some track_info \<Rightarrow>
          (let track_id = ti_id track_info;
               preferred = preferred_format config;
               available = available_format track_info
           in if preferred \<noteq> available \<and> \<not> cfg_fallback_to_lower_quality config then
                st\<lparr>failed_tracks := failed_tracks st @ [track_id]\<rparr>
              else
                (let st1 = st\<lparr>requested := requested st @ [StreamLookup track_id available]\<rparr>
                 in case web_stream w track_id available of
                      Inl e \<Rightarrow> st1\<lparr>failed_tracks := failed_tracks st1 @ [track_id]\<rparr>
                    | Inr track_url \<Rightarrow>
                        (case ti_artist_names track_info of
                           [] \<Rightarrow> st1\<lparr>failed_tracks := failed_tracks st1 @ [track_id]\<rparr>
                         | artist # others \<Rightarrow>
                             (let file_extension =
                                    (if available = str ''flac'' then str ''flac'' else str ''mp3'');
                                  file_name = artist @ str '' - '' @ ti_title track_info @ str ''.''
                                                @ file_extension;
                                  download_path = (case cfg_download_path config of
                                                     None \<Rightarrow> str ''./music'' | Some p \<Rightarrow> p);
                                  file_path = path_join download_path
                                                (map (\<lambda>c. if c = 47 then 95 else c) file_name);
                                  st2 = st1\<lparr>requested := requested st1 @ [Fetch track_url]\<rparr>
                              in case web_fetch w track_url of
                                   Inl e \<Rightarrow> st2\<lparr>failed_tracks := failed_tracks st2 @ [track_id]\<rparr>
                                 | Inr audio \<Rightarrow>
                                     add_metadata w file_path track_info
                                       (st2\<lparr>saved := saved st2 @ [file_path]\<rparr>))))))"

definition new_downloader :: downloader where
  "new_downloader = \<lparr>failed_tracks = [], requested = [], saved = []\<rparr>"

definition demo_web :: web where
  "demo_web = \<lparr>web_stream = (\<lambda>track_id quality. Inr (str ''https://cdn/'' @ quality)),
     web_fetch = (\<lambda>url. Inr [1, 2, 3]), web_add_metadata = (\<lambda>path. None)\<rparr>"

definition demo_track_info :: track_info where
  "demo_track_info = \<lparr>ti_id = 116136641, ti_title = str ''Song'', ti_has_flac = Some False,
     ti_artist_names = [str ''Artist'']\<rparr>"


section \<open>Properties\<close>

subsection \<open>Trailing whitespace\<close>

lemma rstrip_decompose: "\<exists>ws. s = rstrip U s @ ws \<and> list_all (isspace U) ws"
proof -
  have "rev s = takeWhile (isspace U) (rev s) @ dropWhile (isspace U) (rev s)"
    by simp
  then have "s = rev (dropWhile (isspace U) (rev s)) @ rev (takeWhile (isspace U) (rev s))"
    by (metis rev_append rev_rev_ident)
  moreover have "list_all (isspace U) (rev (takeWhile (isspace U) (rev s)))"
    by (simp add: list_all_iff) (meson set_takeWhileD)
  ultimately show ?thesis
    unfolding rstrip_def by blast
qed

lemma rstrip_idem: "rstrip U (rstrip U s) = rstrip U s"
  unfolding rstrip_def by simp

lemma rstrip_last: "rstrip U s = [] \<or> \<not> isspace U (last (rstrip U s))"
  unfolding rstrip_def
  by (metis hd_dropWhile last_rev rev_is_Nil_conv)

lemma set_rstrip: "set (rstrip U s) \<subseteq> set s"
  unfolding rstrip_def by (metis set_dropWhileD set_rev subsetI)

lemma filter_rstrip: "list_all P s \<Longrightarrow> filter P (rstrip U s) = rstrip U s"
  using set_rstrip [of U s] by (auto simp: list_all_iff filter_id_conv)

lemma rstrip_append_nonspace:
  assumes "t \<noteq> []" and "\<not> isspace U (last t)"
  shows "rstrip U (s @ t) = s @ t"
proof -
  from assms obtain c cs where r: "rev t = c # cs" and c: "c = last t"
    by (metis hd_rev list.exhaust_sel rev_is_Nil_conv)
  with assms(2) show ?thesis
    unfolding rstrip_def by (simp add: r) (metis r rev.simps(2) rev_rev_ident)
qed


subsection \<open>Quality names\<close>

lemma strip_decompose:
  "\<exists>pre post. s = pre @ strip U s @ post \<and> list_all (isspace U) pre \<and> list_all (isspace U) post"
proof -
  obtain ws where ws: "dropWhile (isspace U) s = rstrip U (dropWhile (isspace U) s) @ ws"
      "list_all (isspace U) ws"
    using rstrip_decompose [of "dropWhile (isspace U) s" U] by blast
  have "s = takeWhile (isspace U) s @ strip U s @ ws"
    using ws(1) unfolding strip_def by (metis takeWhile_dropWhile_id)
  moreover have "list_all (isspace U) (takeWhile (isspace U) s)"
    by (simp add: list_all_iff) (meson set_takeWhileD)
  ultimately show ?thesis
    using ws(2) by blast
qed

lemma strip_ends:
  "strip U s = [] \<or> (\<not> isspace U (hd (strip U s)) \<and> \<not> isspace U (last (strip U s)))"
proof (cases "strip U s = []")
  case True
  then show ?thesis by simp
next
  case False
  let ?d = "dropWhile (isspace U) s"
  obtain ws where ws: "?d = strip U s @ ws"
    using rstrip_decompose [of ?d U] unfolding strip_def by blast
  from False ws have "hd (strip U s) = hd ?d"
    by (metis hd_append2)
  moreover from False ws have "?d \<noteq> []"
    by auto
  ultimately have "\<not> isspace U (hd (strip U s))"
    by (simp add: hd_dropWhile)
  moreover have "\<not> isspace U (last (strip U s))"
    using rstrip_last [of U ?d] False unfolding strip_def by simp
  ultimately show ?thesis
    by simp
qed

text \<open>
  C10. For every argument (a string, the empty string, or \<open>None\<close>), \<open>normalize_quality\<close>
  returns one of \<open>flac\<close>, \<open>high\<close>, \<open>mid\<close>: the trimmed, lower-cased argument is looked up among the
  aliases f/flac, h/high/320 and m/mid/128, and anything else gives \<open>high\<close>. Trimming takes
  whitespace, and nothing else, off both ends; lower-casing maps the ASCII capitals to their
  small letters. So blanks, tabs and capitals around an alias do not matter, while a blank
  inside one does.
\<close>

theorem normalize_quality_range:
  "normalize_quality U quality \<in> {str ''flac'', str ''high'', str ''mid''} \<and>
   (let q = lower U (strip U (case quality of None \<Rightarrow> [] | Some s \<Rightarrow> s)) in
    normalize_quality U quality =
      (if q \<in> {str ''f'', str ''flac''} then str ''flac''
       else if q \<in> {str ''h'', str ''high'', str ''320''} then str ''high''
       else if q \<in> {str ''m'', str ''mid'', str ''128''} then str ''mid''
       else str ''high'')) \<and>
   normalize_quality U (Some []) = str ''high'' \<and>
   normalize_quality U None = str ''high'' \<and>
   (\<exists>pre post. s = pre @ strip U s @ post \<and>
      list_all (isspace U) pre \<and> list_all (isspace U) post) \<and>
   (strip U s = [] \<or> (\<not> isspace U (hd (strip U s)) \<and> \<not> isspace U (last (strip U s)))) \<and>
   (list_all (\<lambda>c. c < 128) s \<longrightarrow>
      lower U s = map (\<lambda>c. if 65 \<le> c \<and> c \<le> 90 then c + 32 else c) s) \<and>
   normalize_quality U (Some ([32, 9] @ str ''FLAC'' @ [10])) = str ''flac'' \<and>
   normalize_quality U (Some (str ''F'')) = str ''flac'' \<and>
   normalize_quality U (Some (str '' High '')) = str ''high'' \<and>
   normalize_quality U (Some (str ''H '')) = str ''high'' \<and>
   normalize_quality U (Some (str '' 320'')) = str ''high'' \<and>
   normalize_quality U (Some (str ''MID'')) = str ''mid'' \<and>
   normalize_quality U (Some (str '' m'')) = str ''mid'' \<and>
   normalize_quality U (Some (str ''128 '')) = str ''mid'' \<and>
   normalize_quality U (Some (str ''fl ac'')) = str ''high'' \<and>
   normalize_quality U (Some (str ''lossless'')) = str ''high''"
proof -
  note defs = normalize_quality_def quality_mapping_def str_def Let_def lower_def
    strip_def rstrip_def isspace_def
  have range: "normalize_quality U quality \<in> {str ''flac'', str ''high'', str ''mid''}"
    by (simp add: normalize_quality_def quality_mapping_def str_def Let_def)
  have table: "(let q = lower U (strip U (case quality of None \<Rightarrow> [] | Some s \<Rightarrow> s)) in
    normalize_quality U quality =
      (if q \<in> {str ''f'', str ''flac''} then str ''flac''
       else if q \<in> {str ''h'', str ''high'', str ''320''} then str ''high''
       else if q \<in> {str ''m'', str ''mid'', str ''128''} then str ''mid''
       else str ''high''))"
    by (simp add: normalize_quality_def quality_mapping_def str_def Let_def)
  have empty: "normalize_quality U (Some []) = str ''high''" "normalize_quality U None = str ''high''"
    by (simp_all add: defs)
  have low: "list_all (\<lambda>c. c < 128) s \<longrightarrow>
      lower U s = map (\<lambda>c. if 65 \<le> c \<and> c \<le> 90 then c + 32 else c) s"
    by (simp add: lower_def)
  have e1: "normalize_quality U (Some ([32, 9] @ str ''FLAC'' @ [10])) = str ''flac''"
    by (simp add: defs)
  have e2: "normalize_quality U (Some (str ''F'')) = str ''flac''"
    by (simp add: defs)
  have e3: "normalize_quality U (Some (str '' High '')) = str ''high''"
    by (simp add: defs)
  have e4: "normalize_quality U (Some (str ''H '')) = str ''high''"
    by (simp add: defs)
  have e5: "normalize_quality U (Some (str '' 320'')) = str ''high''"
    by (simp add: defs)
  have e6: "normalize_quality U (Some (str ''MID'')) = str ''mid''"
    by (simp add: defs)
  have e7: "normalize_quality U (Some (str '' m'')) = str ''mid''"
    by (simp add: defs)
  have e8: "normalize_quality U (Some (str ''128 '')) = str ''mid''"
    by (simp add: defs)
  have e9: "normalize_quality U (Some (str ''fl ac'')) = str ''high''"
    by (simp add: defs)
  have e10: "normalize_quality U (Some (str ''lossless'')) = str ''high''"
    by (simp add: defs)
  from range table empty strip_decompose [of s U] strip_ends [of U s] low
    e1 e2 e3 e4 e5 e6 e7 e8 e9 e10
  show ?thesis
    by (intro conjI)
qed

theorem normalize_quality_range_witness:
  "normalize_quality ascii_db (Some (str ''  FLAC '')) = str ''flac'' \<and>
   strip ascii_db (str ''  FLAC '') = str ''FLAC'' \<and>
   lower ascii_db (str ''FLAC'') = str ''flac'' \<and>
   \<not> isspace ascii_db (hd (strip ascii_db (str ''  FLAC '')))"
  using normalize_quality_range [of ascii_db "Some (str ''  FLAC '')" "str ''  FLAC ''"]
  by (simp add: normalize_quality_def quality_mapping_def str_def Let_def lower_def
      strip_def rstrip_def isspace_def)


subsection \<open>File names\<close>

text \<open>
  C6. The clean-up of a track's file name keeps the characters that are alphanumeric or one
  of space, hyphen, underscore and dot, in their order, drops every other character, and
  then strips trailing whitespace; applying it to its own result changes nothing.
\<close>

theorem sanitize_base_name_idempotent:
  "sanitize_base_name U (sanitize_base_name U s) = sanitize_base_name U s \<and>
   list_all (\<lambda>c. isalnum U c \<or> c = 32 \<or> c = 45 \<or> c = 95 \<or> c = 46) (sanitize_base_name U s) \<and>
   (\<exists>ws. filter (\<lambda>c. isalnum U c \<or> c = 32 \<or> c = 45 \<or> c = 95 \<or> c = 46) s
          = sanitize_base_name U s @ ws \<and> list_all (isspace U) ws) \<and>
   (sanitize_base_name U s = [] \<or> \<not> isspace U (last (sanitize_base_name U s)))"
proof -
  let ?keep = "\<lambda>c. isalnum U c \<or> c = 32 \<or> c = 45 \<or> c = 95 \<or> c = 46"
  have k: "keep_in_filename U = ?keep"
    by (rule ext) (auto simp: keep_in_filename_def str_def)
  have all: "list_all ?keep (filter ?keep s)"
    by (simp add: list_all_iff)
  have kept: "list_all ?keep (sanitize_base_name U s)"
    using set_rstrip [of U "filter ?keep s"]
    unfolding sanitize_base_name_def k list_all_iff by auto
  have idem: "sanitize_base_name U (sanitize_base_name U s) = sanitize_base_name U s"
    unfolding sanitize_base_name_def k
    by (simp only: filter_rstrip [OF all] rstrip_idem)
  show ?thesis
    using idem kept rstrip_decompose [of "filter ?keep s" U] rstrip_last [of U "filter ?keep s"]
    unfolding sanitize_base_name_def k by blast
qed

theorem sanitize_base_name_idempotent_witness:
  "sanitize_base_name ascii_db (str ''AC/DC - T.N.T: live?  *  '') = str ''ACDC - T.N.T live'' \<and>
   sanitize_base_name ascii_db (sanitize_base_name ascii_db (str ''AC/DC - T.N.T: live?  *  ''))
     = str ''ACDC - T.N.T live'' \<and>
   \<not> isspace ascii_db (last (sanitize_base_name ascii_db (str ''AC/DC - T.N.T: live?  *  '')))"
  using sanitize_base_name_idempotent [of ascii_db "str ''AC/DC - T.N.T: live?  *  ''"]
  by (simp add: sanitize_base_name_def keep_in_filename_def rstrip_def isalnum_def isspace_def
      str_def)


subsection \<open>Choice of releases\<close>

lemma filter_step_fold:
  "fold (filter_step skip) xs acc =
     acc @ (if skip then filter (\<lambda>item. album_like (snd item)) xs else xs)"
  by (induction xs arbitrary: acc)
    (auto simp: filter_step_def album_like_def release_type_def Let_def str_def
      split: option.splits)

text \<open>
  C8. With skip-singles on, the filter loop of the artist download keeps a fetched release
  exactly when it is typed as album or has at least seven track ids, in the order of the
  fetched dictionary; with the option off it keeps every fetched release.
\<close>

theorem filter_releases_album_like:
  "filter_releases skip_singles releases_data =
     (if skip_singles then filter (\<lambda>item. album_like (snd item)) releases_data
      else releases_data) \<and>
   (item \<in> set (filter_releases True releases_data) \<longleftrightarrow>
      item \<in> set releases_data \<and>
      (rd_type (snd item) = Some (str ''album'') \<or> 7 \<le> length (rd_track_ids (snd item)))) \<and>
   filter_releases False releases_data = releases_data"
  by (simp add: filter_releases_def filter_step_fold album_like_def)

text \<open>
  C5, evaluated on the code. Three releases are fetched: one of 31 January 2020, one with
  no date, one of 1 May 2019; two are asked for. The undated release has the key 99999999
  and the sort is descending, so it comes first and the release of 2019 is cut off, where
  the claim puts the undated release last and keeps the two dated ones.
\<close>

theorem albums_to_download_undated_first:
  "map fst (albums_to_download ascii_db False 2
     [(1, \<lparr>rd_title = Some (str ''New''), rd_date = Some (JInt 20200131),
            rd_type = Some (str ''album''), rd_track_ids = [11, 12, 13]\<rparr>),
      (2, \<lparr>rd_title = Some (str ''Undated''), rd_date = None,
            rd_type = Some (str ''single''), rd_track_ids = [21]\<rparr>),
      (3, \<lparr>rd_title = Some (str ''Old''), rd_date = Some (JStr (str ''2019-05-01'')),
            rd_type = None, rd_track_ids = [31, 32]\<rparr>)]) = [2, 1] \<and>
   release_date_int ascii_db \<lparr>rd_title = Some (str ''Undated''), rd_date = None,
            rd_type = Some (str ''single''), rd_track_ids = [21]\<rparr> = 99999999"
  by (simp add: albums_to_download_def filter_releases_def filter_step_def sort_reverse_def
      release_date_int_def slice_to_def str_int_def digits.simps isdigit_char_def decimal_def
      str_def release_type_def Let_def)


subsection \<open>Folder names\<close>

lemma py_join_snoc: "xs \<noteq> [] \<Longrightarrow> py_join sep (xs @ [l]) = py_join sep xs @ sep @ l"
  by (induction sep xs rule: py_join.induct) auto

lemma keep_label:
  "filter (keep_in_foldername U) (str ''['' @ str ''LP'' @ str '']'') = str ''[LP]''"
  "filter (keep_in_foldername U) (str ''['' @ str ''SINGLE'' @ str '']'') = str ''[SINGLE]''"
  "filter (keep_in_foldername U) (str ''['' @ str ''EP'' @ str '']'') = str ''[EP]''"
  by (simp_all add: keep_in_foldername_def isalnum_def str_def)

lemma folder_name_with_label:
  assumes l: "label rd = Some l"
    and k: "filter (keep_in_foldername U) (str ''['' @ l @ str '']'') = t"
    and t: "t = str ''['' @ l @ str '']''"
  shows "suffix t (folder_name U rid idx rd)"
proof -
  obtain ps where ps: "name_parts U rid idx rd = ps @ [t]" and ne: "ps \<noteq> []"
    using l by (simp add: name_parts_def t)
  have nt: "t \<noteq> []" "\<not> isspace U (last t)"
    by (simp_all add: t str_def isspace_def)
  have "filter (keep_in_foldername U) (py_join (str '' '') (name_parts U rid idx rd))
      = filter (keep_in_foldername U) (py_join (str '' '') ps @ str '' '') @ t"
    unfolding ps py_join_snoc [OF ne] using k by (simp add: t)
  then have "folder_name U rid idx rd
      = filter (keep_in_foldername U) (py_join (str '' '') ps @ str '' '') @ t"
    unfolding folder_name_def by (simp only: rstrip_append_nonspace [OF nt])
  then show ?thesis
    by (simp add: suffix_def)
qed

lemma fmt_02d_two_digits:
  assumes "0 < i" "i < 100"
  shows "length (fmt_02d i) = 2 \<and> list_all (\<lambda>c. 48 \<le> c \<and> c \<le> 57) (fmt_02d i)"
proof -
  have d: "digits (nat i) =
      (if nat i < 10 then [48 + nat i] else [48 + nat i div 10, 48 + nat i mod 10])"
    using assms by (subst digits.simps, subst digits.simps) auto
  show ?thesis
    using assms by (auto simp: fmt_02d_def str_int_def d Let_def)
qed

lemma folder_name_chars:
  "list_all (\<lambda>c. isalnum U c \<or> c \<in> {32, 45, 95, 46, 91, 93}) (folder_name U rid idx rd)"
proof -
  have "keep_in_foldername U = (\<lambda>c. isalnum U c \<or> c \<in> {32, 45, 95, 46, 91, 93})"
    by (rule ext) (auto simp: keep_in_foldername_def str_def)
  then show ?thesis
    using set_rstrip [of U "filter (keep_in_foldername U)
        (py_join (str '' '') (name_parts U rid idx rd))"]
    unfolding folder_name_def list_all_iff by auto
qed

lemma label_cases:
  "label rd =
     (if release_type rd = str ''album'' then Some (str ''LP'')
      else if length (rd_track_ids rd) = 1 then Some (str ''SINGLE'')
      else if 2 \<le> length (rd_track_ids rd) \<and> length (rd_track_ids rd) \<le> 6
        then Some (str ''EP'')
      else None)"
  by (simp add: label_def Let_def)

text \<open>
  C7. The folder name of a release is the clean-up (alphanumerics, space, hyphen,
  underscore, dot and the two brackets; trailing whitespace stripped) of the parts joined
  by spaces: the index zero-padded to two digits with a dot when an index above zero is
  given, the year in brackets when the date is set and its first four characters are
  digits, the title, and the label in brackets. The name ends with \<open>[LP]\<close> for a release
  typed as album, else with \<open>[SINGLE]\<close> for one track id, else with \<open>[EP]\<close> for two to six
  track ids; otherwise there is no label and the title is the last part.
\<close>

theorem folder_name_label:
  "(release_type rd = str ''album'' \<longrightarrow>
      label rd = Some (str ''LP'') \<and> suffix (str ''[LP]'') (folder_name U rid idx rd)) \<and>
   (release_type rd \<noteq> str ''album'' \<and> length (rd_track_ids rd) = 1 \<longrightarrow>
      label rd = Some (str ''SINGLE'') \<and> suffix (str ''[SINGLE]'') (folder_name U rid idx rd)) \<and>
   (release_type rd \<noteq> str ''album'' \<and> 2 \<le> length (rd_track_ids rd) \<and>
    length (rd_track_ids rd) \<le> 6 \<longrightarrow>
      label rd = Some (str ''EP'') \<and> suffix (str ''[EP]'') (folder_name U rid idx rd)) \<and>
   (release_type rd \<noteq> str ''album'' \<and>
    (length (rd_track_ids rd) = 0 \<or> 7 \<le> length (rd_track_ids rd)) \<longrightarrow>
      label rd = None \<and> last (name_parts U rid idx rd) = release_title rid rd) \<and>
   name_parts U rid idx rd =
     (case idx of Some i \<Rightarrow> if 0 < i then [fmt_02d i @ str ''.''] else [] | None \<Rightarrow> []) @
     (case year_str U rd of Some y \<Rightarrow> [str ''['' @ y @ str '']''] | None \<Rightarrow> []) @
     [case rd_title rd of Some t \<Rightarrow> t | None \<Rightarrow> str ''Release_'' @ str_int rid] @
     (case label rd of Some l \<Rightarrow> [str ''['' @ l @ str '']''] | None \<Rightarrow> []) \<and>
   (0 < i \<and> i < 100 \<longrightarrow>
      length (fmt_02d i) = 2 \<and> list_all (\<lambda>c. 48 \<le> c \<and> c \<le> 57) (fmt_02d i)) \<and>
   (year_str U rd = Some y \<longleftrightarrow>
      (\<exists>dv. rd_date rd = Some dv \<and> truthy dv \<and> 4 \<le> length (str_of dv) \<and>
            isdigit U (take 4 (str_of dv)) \<and> y = take 4 (str_of dv))) \<and>
   folder_name U rid idx rd =
     rstrip U (filter (\<lambda>c. isalnum U c \<or> c \<in> {32, 45, 95, 46, 91, 93})
       (py_join (str '' '') (name_parts U rid idx rd)))"
proof -
  have lp: "release_type rd = str ''album'' \<longrightarrow>
      label rd = Some (str ''LP'') \<and> suffix (str ''[LP]'') (folder_name U rid idx rd)"
    using folder_name_with_label [where rd = rd and rid = rid and idx = idx, OF _ keep_label(1)]
    by (simp add: label_cases) (simp add: str_def)
  have single: "release_type rd \<noteq> str ''album'' \<and> length (rd_track_ids rd) = 1 \<longrightarrow>
      label rd = Some (str ''SINGLE'') \<and> suffix (str ''[SINGLE]'') (folder_name U rid idx rd)"
    using folder_name_with_label [where rd = rd and rid = rid and idx = idx, OF _ keep_label(2)]
    by (simp add: label_cases) (simp add: str_def)
  have ep: "release_type rd \<noteq> str ''album'' \<and> 2 \<le> length (rd_track_ids rd) \<and>
      length (rd_track_ids rd) \<le> 6 \<longrightarrow>
      label rd = Some (str ''EP'') \<and> suffix (str ''[EP]'') (folder_name U rid idx rd)"
    using folder_name_with_label [where rd = rd and rid = rid and idx = idx, OF _ keep_label(3)]
    by (simp add: label_cases) (simp add: str_def)
  have none: "release_type rd \<noteq> str ''album'' \<and>
      (length (rd_track_ids rd) = 0 \<or> 7 \<le> length (rd_track_ids rd)) \<longrightarrow>
      label rd = None \<and> last (name_parts U rid idx rd) = release_title rid rd"
    by (auto simp: label_cases name_parts_def)
  have parts: "name_parts U rid idx rd =
     (case idx of Some i \<Rightarrow> if 0 < i then [fmt_02d i @ str ''.''] else [] | None \<Rightarrow> []) @
     (case year_str U rd of Some y \<Rightarrow> [str ''['' @ y @ str '']''] | None \<Rightarrow> []) @
     [case rd_title rd of Some t \<Rightarrow> t | None \<Rightarrow> str ''Release_'' @ str_int rid] @
     (case label rd of Some l \<Rightarrow> [str ''['' @ l @ str '']''] | None \<Rightarrow> [])"
    by (simp add: name_parts_def release_title_def)
  have idx2: "0 < i \<and> i < 100 \<longrightarrow>
      length (fmt_02d i) = 2 \<and> list_all (\<lambda>c. 48 \<le> c \<and> c \<le> 57) (fmt_02d i)"
    using fmt_02d_two_digits [of i] by blast
  have year: "year_str U rd = Some y \<longleftrightarrow>
      (\<exists>dv. rd_date rd = Some dv \<and> truthy dv \<and> 4 \<le> length (str_of dv) \<and>
            isdigit U (take 4 (str_of dv)) \<and> y = take 4 (str_of dv))"
    by (auto simp: year_str_def Let_def split: option.splits if_splits)
  have k: "keep_in_foldername U = (\<lambda>c. isalnum U c \<or> c \<in> {32, 45, 95, 46, 91, 93})"
    by (rule ext) (auto simp: keep_in_foldername_def str_def)
  have clean: "folder_name U rid idx rd =
     rstrip U (filter (\<lambda>c. isalnum U c \<or> c \<in> {32, 45, 95, 46, 91, 93})
       (py_join (str '' '') (name_parts U rid idx rd)))"
    by (simp add: folder_name_def k)
  from lp single ep none parts idx2 year clean show ?thesis
    by (intro conjI)
qed


theorem folder_name_label_witness:
  "folder_name ascii_db 7 (Some 3)
     \<lparr>rd_title = Some (str ''A/B: live''), rd_date = Some (JInt 20200131),
      rd_type = Some (str ''album''), rd_track_ids = [1, 2, 3]\<rparr> = str ''03. [2020] AB live [LP]'' \<and>
   folder_name ascii_db 7 None
     \<lparr>rd_title = Some (str ''Old''), rd_date = None,
      rd_type = Some (str ''single''), rd_track_ids = [4]\<rparr> = str ''Old [SINGLE]'' \<and>
   folder_name ascii_db 7 (Some 0)
     \<lparr>rd_title = Some (str ''Duo''), rd_date = Some (JStr (str ''n/a'')),
      rd_type = None, rd_track_ids = [5, 6]\<rparr> = str ''Duo [EP]'' \<and>
   folder_name ascii_db 7 (Some 12)
     \<lparr>rd_title = None, rd_date = Some (JStr (str ''2019-05-01'')),
      rd_type = None, rd_track_ids = [1, 2, 3, 4, 5, 6, 7]\<rparr> = str ''12. [2019] Release_7'' \<and>
   length (fmt_02d 3) = 2"
proof -
  let ?a = "\<lparr>rd_title = Some (str ''A/B: live''), rd_date = Some (JInt 20200131),
      rd_type = Some (str ''album''), rd_track_ids = [1, 2, 3]\<rparr>"
  let ?s = "\<lparr>rd_title = Some (str ''Old''), rd_date = None,
      rd_type = Some (str ''single''), rd_track_ids = [4]\<rparr>"
  let ?e = "\<lparr>rd_title = Some (str ''Duo''), rd_date = Some (JStr (str ''n/a'')),
      rd_type = None, rd_track_ids = [5, 6]\<rparr>"
  let ?n = "\<lparr>rd_title = None, rd_date = Some (JStr (str ''2019-05-01'')),
      rd_type = None, rd_track_ids = [1, 2, 3, 4, 5, 6, 7]\<rparr>"
  note defs = folder_name_def name_parts_def year_str_def label_def release_type_def
    release_title_def keep_in_foldername_def isalnum_def isspace_def rstrip_def str_def
    fmt_02d_def str_int_def digits.simps isdigit_def isdigit_char_def Let_def
  have a: "folder_name ascii_db 7 (Some 3) ?a = str ''03. [2020] AB live [LP]''"
    using folder_name_label [where rd = ?a and U = ascii_db and rid = 7 and idx = "Some 3"
        and i = 3 and y = "str ''2020''"]
    by (simp add: defs)
  have s: "folder_name ascii_db 7 None ?s = str ''Old [SINGLE]''"
    using folder_name_label [where rd = ?s and U = ascii_db and rid = 7 and idx = None
        and i = 3 and y = "str ''2020''"]
    by (simp add: defs)
  have e: "folder_name ascii_db 7 (Some 0) ?e = str ''Duo [EP]''"
    using folder_name_label [where rd = ?e and U = ascii_db and rid = 7 and idx = "Some 0"
        and i = 3 and y = "str ''2020''"]
    by (simp add: defs)
  have n: "folder_name ascii_db 7 (Some 12) ?n = str ''12. [2019] Release_7''"
    using folder_name_label [where rd = ?n and U = ascii_db and rid = 7 and idx = "Some 12"
        and i = 3 and y = "str ''2019''"]
    by (simp add: defs)
  have i: "length (fmt_02d 3) = 2"
    using folder_name_label [where rd = ?a and U = ascii_db and rid = 7 and idx = "Some 3"
        and i = 3 and y = "str ''2020''"]
    by simp
  from a s e n i show ?thesis
    by (intro conjI)
qed


subsection \<open>Transport\<close>

lemma handlers_Inl [simp]: "handlers (Inl e) = Fallthrough"
  by (cases e) simp_all

lemma attempt_fails_step:
  "attempt_fails outcome \<Longrightarrow> handlers (fst (attempt_body cfg attempt outcome st)) \<noteq> Return p"
  by (cases outcome)
    (auto simp: attempt_fails_def attempt_body_def Let_def isl_def
      split: sum.splits py_exc.splits if_splits)

lemma attempt_body_count:
  "requests_made (snd (attempt_body cfg attempt outcome st)) = requests_made st + 1"
  by (auto simp: attempt_body_def Let_def split: sum.splits)

lemma inter_attempt_delay_count [simp]:
  "requests_made (inter_attempt_delay cfg attempt st) = requests_made st"
  by (simp add: inter_attempt_delay_def)

lemma request_loop_exhausted:
  "(\<And>i. attempt \<le> i \<Longrightarrow> int i < max_retries cfg \<Longrightarrow> attempt_fails (net i)) \<Longrightarrow>
   fst (request_loop cfg net attempt st) = None \<and>
   requests_made (snd (request_loop cfg net attempt st)) =
     requests_made st + max 0 (max_retries cfg - int attempt)"
proof (induction cfg net attempt st rule: request_loop.induct)
  case (1 cfg net attempt st)
  show ?case
  proof (cases "int attempt < max_retries cfg")
    case False
    then show ?thesis
      by (subst request_loop.simps, subst (2) request_loop.simps) simp
  next
    case True
    obtain r st1 where ab: "attempt_body cfg attempt (net attempt) st = (r, st1)"
      by (cases "attempt_body cfg attempt (net attempt) st")
    have nr: "\<forall>p. handlers r \<noteq> Return p"
      using attempt_fails_step [OF "1.prems", of attempt cfg attempt st] True ab by simp
    have c1: "requests_made st1 = requests_made st + 1"
      using attempt_body_count [of cfg attempt "net attempt" st] ab by simp
    have later: "\<And>i. Suc attempt \<le> i \<Longrightarrow> int i < max_retries cfg \<Longrightarrow> attempt_fails (net i)"
      using "1.prems" by simp
    show ?thesis
    proof (cases "handlers r")
      case (Return p)
      with nr show ?thesis by simp
    next
      case Continue
      from "1.IH"(1) [OF True ab [symmetric] Continue later]
      show ?thesis
        using True ab Continue c1
        by (subst request_loop.simps, subst (2) request_loop.simps) simp
    next
      case Fallthrough
      from "1.IH"(2) [OF True ab [symmetric] Fallthrough later]
      show ?thesis
        using True ab Fallthrough c1
        by (subst request_loop.simps, subst (2) request_loop.simps) simp
    qed
  qed
qed

text \<open>
  C1. For every method, endpoint and arguments: when each of the \<open>max_retries\<close> attempts
  fails (a status other than 200, a timeout, or another exception), \<open>make_request\<close> returns
  \<open>None\<close>, having counted one request per attempt; every exception raised in an attempt is
  caught by a handler and falls through to the next iteration, so none reaches the caller.
\<close>

theorem make_request_exhaustion:
  assumes "\<forall>i. int i < max_retries cfg \<longrightarrow> attempt_fails (net http_method endpoint kwargs i)"
  shows "fst (make_request cfg net http_method endpoint kwargs st) = None \<and>
         requests_made (snd (make_request cfg net http_method endpoint kwargs st)) =
           requests_made st + max 0 (max_retries cfg) \<and>
         (\<forall>e. handlers (Inl e :: py_exc + 'j step) = Fallthrough)"
  using assms
    request_loop_exhausted [of 0 cfg "net http_method endpoint kwargs"
      "st\<lparr>slept := slept st @ [Politeness]\<rparr>"]
  by (simp add: make_request_def)

theorem make_request_exhaustion_witness:
  "fst (make_request \<lparr>max_retries = 5, retry_delay = 3, download_path = str ''./downloads''\<rparr>
     (\<lambda>http_method endpoint kwargs i.
        if i = 0 then Inl TimeoutError
        else if i = 1 then Inr \<lparr>status = 500, content_type = str ''text/html'',
               json_result = Inl OtherException, read_result = Inr [], text_result = Inr (str ''error'')\<rparr>
        else if i = 2 then Inr \<lparr>status = 200, content_type = str ''application/json'',
               json_result = Inl OtherException, read_result = Inr [], text_result = Inr []\<rparr>
        else Inl OtherException)
     (str ''GET'') (str ''/api/tiny/tracks'') () new_bot) = (None :: unit payload option) \<and>
   requests_made (snd (make_request \<lparr>max_retries = 5, retry_delay = 3, download_path = str ''./downloads''\<rparr>
     (\<lambda>http_method endpoint kwargs i.
        if i = 0 then Inl TimeoutError
        else if i = 1 then Inr \<lparr>status = 500, content_type = str ''text/html'',
               json_result = Inl OtherException, read_result = Inr [], text_result = Inr (str ''error'')\<rparr>
        else if i = 2 then Inr \<lparr>status = 200, content_type = str ''application/json'',
               json_result = (Inl OtherException :: py_exc + unit), read_result = Inr [], text_result = Inr []\<rparr>
        else Inl OtherException)
     (str ''GET'') (str ''/api/tiny/tracks'') () new_bot)) = 5"
  using make_request_exhaustion [where cfg = "\<lparr>max_retries = 5, retry_delay = 3, download_path = str ''./downloads''\<rparr>"
     and net = "\<lambda>http_method endpoint kwargs i.
        if i = 0 then Inl TimeoutError
        else if i = 1 then Inr \<lparr>status = 500, content_type = str ''text/html'',
               json_result = Inl OtherException, read_result = Inr [], text_result = Inr (str ''error'')\<rparr>
        else if i = 2 then Inr \<lparr>status = 200, content_type = str ''application/json'',
               json_result = (Inl OtherException :: py_exc + unit), read_result = Inr [], text_result = Inr []\<rparr>
        else Inl OtherException"
     and http_method = "str ''GET''" and endpoint = "str ''/api/tiny/tracks''" and kwargs = "()"
     and st = new_bot]
  by (simp add: attempt_fails_def new_bot_def contains_def str_def)

text \<open>
  C4. When the first attempt is answered with status 418 and the second with status 200
  and a JSON body, \<open>make_request\<close> returns the decoded body, has counted two requests, and
  after the politeness delay has slept exactly once, for \<open>retry_delay * (attempt + 1) * 2\<close>
  with \<open>attempt = 0\<close>: the ordinary delay \<open>retry_delay * (attempt + 1)\<close> of that iteration
  is skipped, and it is the shorter one whenever \<open>retry_delay\<close> is positive.
\<close>

theorem make_request_teapot_then_success:
  assumes "2 \<le> max_retries cfg"
    and "net http_method endpoint kwargs 0 = Inr r1" and "status r1 = 418"
    and "net http_method endpoint kwargs 1 = Inr r2" and "status r2 = 200"
    and "contains (str ''application/json'') (content_type r2)"
    and "json_result r2 = Inr data"
  shows "make_request cfg net http_method endpoint kwargs st =
           (Some (Json data),
            st\<lparr>requests_made := requests_made st + 2,
               slept := slept st @ [Politeness, Wait (retry_delay cfg * (int 0 + 1) * 2)]\<rparr>) \<and>
         (0 < retry_delay cfg \<longrightarrow>
            retry_delay cfg * (int 0 + 1) < retry_delay cfg * (int 0 + 1) * 2 \<and>
            slept (inter_attempt_delay cfg 0 st) = slept st @ [Wait (retry_delay cfg * (int 0 + 1))])"
proof -
  have l1: "request_loop cfg (net http_method endpoint kwargs) (Suc 0) s =
      (Some (Json data), s\<lparr>requests_made := requests_made s + 1\<rparr>)" for s
    using assms by (subst request_loop.simps) (simp add: attempt_body_def Let_def)
  have "request_loop cfg (net http_method endpoint kwargs) 0 s =
      (Some (Json data),
       s\<lparr>requests_made := requests_made s + 2,
          slept := slept s @ [Wait (retry_delay cfg * (int 0 + 1) * 2)]\<rparr>)" for s
    using assms by (subst request_loop.simps) (simp add: attempt_body_def Let_def l1)
  then show ?thesis
    using assms(1) by (simp add: make_request_def inter_attempt_delay_def)
qed

theorem make_request_teapot_then_success_witness:
  "make_request \<lparr>max_retries = 5, retry_delay = 3, download_path = str ''./downloads''\<rparr>
     (\<lambda>http_method endpoint kwargs i.
        if i = 0 then Inr \<lparr>status = 418, content_type = str ''text/html'',
               json_result = Inl OtherException, read_result = Inr [], text_result = Inr []\<rparr>
        else Inr \<lparr>status = 200, content_type = str ''application/json; charset=utf-8'',
               json_result = Inr (7 :: nat), read_result = Inr [], text_result = Inr []\<rparr>)
     (str ''GET'') (str ''/api/tiny/tracks'') () new_bot =
   (Some (Json 7), new_bot\<lparr>requests_made := 2, slept := [Politeness, Wait 6]\<rparr>) \<and>
   (3 :: int) < 6"
  using make_request_teapot_then_success [where cfg = "\<lparr>max_retries = 5, retry_delay = 3, download_path = str ''./downloads''\<rparr>"
     and net = "\<lambda>http_method endpoint kwargs i.
        if i = 0 then Inr \<lparr>status = 418, content_type = str ''text/html'',
               json_result = Inl OtherException, read_result = Inr [], text_result = Inr []\<rparr>
        else Inr \<lparr>status = 200, content_type = str ''application/json; charset=utf-8'',
               json_result = Inr (7 :: nat), read_result = Inr [], text_result = Inr []\<rparr>"
     and http_method = "str ''GET''" and endpoint = "str ''/api/tiny/tracks''" and kwargs = "()"
     and st = new_bot and data = 7
     and ?r1.0 = "\<lparr>status = 418, content_type = str ''text/html'',
               json_result = Inl OtherException, read_result = Inr [], text_result = Inr []\<rparr>"
     and ?r2.0 = "\<lparr>status = 200, content_type = str ''application/json; charset=utf-8'',
               json_result = Inr (7 :: nat), read_result = Inr [], text_result = Inr []\<rparr>"]
  by (simp add: new_bot_def contains_def str_def)


subsection \<open>Tracks\<close>

lemma quiet_refl [simp]: "quiet st st"
  by (auto simp: quiet_def)

lemma quiet_trans: "quiet a b \<Longrightarrow> quiet b c \<Longrightarrow> quiet a c"
proof -
  assume ab: "quiet a b" and bc: "quiet b c"
  from ab obtain l1 where l1: "trace b = trace a @ l1" "list_all (\<lambda>e. \<not> is_file_write e) l1"
      "\<And>path. files b path = files a path \<or> (SidecarWrite path \<in> set l1 \<and> files b path \<noteq> None)"
    unfolding quiet_def by blast
  from bc obtain l2 where l2: "trace c = trace b @ l2" "list_all (\<lambda>e. \<not> is_file_write e) l2"
      "\<And>path. files c path = files b path \<or> (SidecarWrite path \<in> set l2 \<and> files c path \<noteq> None)"
    unfolding quiet_def by blast
  have t: "trace c = trace a @ (l1 @ l2)" "list_all (\<lambda>e. \<not> is_file_write e) (l1 @ l2)"
    using l1(1,2) l2(1,2) by simp_all
  have f: "files c path = files a path \<or> (SidecarWrite path \<in> set (l1 @ l2) \<and> files c path \<noteq> None)"
    for path
    using l1(3) [of path] l2(3) [of path] by auto
  have c: "successful_downloads c = successful_downloads a"
    "failed_downloads c = failed_downloads a"
    "total_data_downloaded c = total_data_downloaded a"
    using ab bc by (simp_all add: quiet_def)
  show ?thesis
    unfolding quiet_def using c t f by blast
qed

lemma quiet_event:
  "\<not> is_file_write e \<Longrightarrow> quiet st (st\<lparr>trace := trace st @ [e]\<rparr>)"
  by (simp add: quiet_def)

lemma quiet_counter [simp]:
  "quiet st (st\<lparr>metadata_embedded := m\<rparr>)"
  "quiet st (st\<lparr>covers_downloaded := c\<rparr>)"
  by (auto simp: quiet_def)

lemma write_text_quiet: "quiet st (snd (write_text sv path content st))"
  by (auto simp: write_text_def quiet_def split: option.splits)

lemma fetch_lyrics_quiet: "quiet st (snd (fetch_lyrics sv track_id st))"
proof -
  have "snd (fetch_lyrics sv track_id st) = st\<lparr>trace := trace st @ [LyricsRequest track_id]\<rparr>"
    by (simp add: fetch_lyrics_def Let_def split: sum.splits prod.splits)
  then show ?thesis
    by (simp add: quiet_event)
qed

lemma fetch_cover_quiet: "quiet st (snd (fetch_cover sv track_data download_cover st))"
proof -
  have q: "quiet st (st\<lparr>trace := trace st @ [CoverRequest u]\<rparr>)" for u
    by (rule quiet_event) simp
  have qc: "quiet st (st\<lparr>trace := trace st @ [CoverRequest u]\<rparr>\<lparr>covers_downloaded := c\<rparr>)" for u c
    by (rule quiet_trans [OF q quiet_counter(2)])
  show ?thesis
  proof (cases "download_cover")
    case False
    then show ?thesis by (simp add: fetch_cover_def)
  next
    case True
    show ?thesis
    proof (cases "td_image track_data")
      case ImageAbsent
      with True show ?thesis by (simp add: fetch_cover_def)
    next
      case ImageOther
      with True show ?thesis by (simp add: fetch_cover_def)
    next
      case (ImageDict src)
      show ?thesis
      proof (cases "truthy_str src")
        case False
        with True ImageDict show ?thesis by (simp add: fetch_cover_def)
      next
        case t: True
        define u where "u = (case src of Some u \<Rightarrow> u | None \<Rightarrow> [])"
        show ?thesis
        proof (cases "sv_download_cover_art sv u")
          case (Inl e)
          with True ImageDict t q [of u] show ?thesis
            by (simp add: fetch_cover_def Let_def u_def)
        next
          case (Inr got)
          show ?thesis
          proof (cases got)
            case None
            with Inr True ImageDict t q [of u] show ?thesis
              by (simp add: fetch_cover_def Let_def u_def)
          next
            case (Some cover_data)
            show ?thesis
            proof (cases "sv_optimize_cover_image sv cover_data")
              case (Inl e)
              with Some Inr True ImageDict t q [of u] show ?thesis
                by (simp add: fetch_cover_def Let_def u_def)
            next
              case opt: (Inr optimized)
              with Some Inr True ImageDict t q [of u]
                qc [where u = u and c = "covers_downloaded st + 1"] show ?thesis
                by (simp add: fetch_cover_def Let_def u_def)
            qed
          qed
        qed
      qed
    qed
  qed
qed

lemma subtitles_quiet:
  "quiet st2
     (if save_subtitles \<and> truthy_str lrc_text then
        (case sv_lrc_to_srt sv l of
           Inl e \<Rightarrow> st2
         | Inr srt_text \<Rightarrow>
             if srt_text \<noteq> [] then snd (write_text sv p srt_text st2) else st2)
      else st2)"
  by (simp add: write_text_quiet split: sum.splits)

lemma pair_case_quiet:
  assumes "quiet st (snd w)" and "\<And>s. quiet s (f s)"
  shows "quiet st (case w of (Some e, st2) \<Rightarrow> st2 | (None, st2) \<Rightarrow> f st2)"
  using assms by (cases w) (auto split: option.splits intro: quiet_trans)

lemma save_beside_quiet:
  "quiet st (save_beside sv filepath lyrics lrc_text save_lyrics save_subtitles st)"
proof (cases "(save_lyrics \<or> save_subtitles) \<and> (truthy_str lyrics \<or> truthy_str lrc_text)")
  case False
  then have "save_beside sv filepath lyrics lrc_text save_lyrics save_subtitles st = st"
    unfolding save_beside_def by (simp only: if_False)
  then show ?thesis
    by simp
next
  case True
  let ?w = "if save_lyrics then
              (if truthy_str lrc_text
               then write_text sv (sv_with_suffix sv filepath (str ''.lrc''))
                      (case lrc_text of Some l \<Rightarrow> l | None \<Rightarrow> []) st
               else write_text sv (sv_with_suffix sv filepath (str ''.txt''))
                      (case lyrics of Some l \<Rightarrow> l | None \<Rightarrow> []) st)
            else (None, st)"
  have qw: "quiet st (snd ?w)"
    by (simp add: write_text_quiet)
  have eq: "save_beside sv filepath lyrics lrc_text save_lyrics save_subtitles st =
      (case ?w of (Some e, st1) \<Rightarrow> st1
       | (None, st1) \<Rightarrow>
           (if save_subtitles \<and> truthy_str lrc_text then
              (case sv_lrc_to_srt sv (case lrc_text of Some l \<Rightarrow> l | None \<Rightarrow> []) of
                 Inl e \<Rightarrow> st1
               | Inr srt_text \<Rightarrow>
                   if srt_text \<noteq> []
                   then snd (write_text sv (sv_with_suffix sv filepath (str ''.srt'')) srt_text st1)
                   else st1)
            else st1))"
    using True unfolding save_beside_def by (simp only: simp_thms if_True)
  show ?thesis
    unfolding eq by (rule pair_case_quiet [OF qw subtitles_quiet])
qed

lemma embed_body_quiet:
  "quiet st (snd (embed_body sv filepath track_data track_id download_cover save_lyrics save_subtitles st))"
proof -
  obtain lyrics lrc_text st1 where l: "fetch_lyrics sv track_id st = ((lyrics, lrc_text), st1)"
    by (metis prod.exhaust)
  obtain cover st2 where c: "fetch_cover sv track_data download_cover st1 = (cover, st2)"
    by (metis prod.exhaust)
  define st3 where "st3 = st2\<lparr>trace := trace st2 @ [TagWrite filepath]\<rparr>"
  have q1: "quiet st st1"
    using fetch_lyrics_quiet [of st sv track_id] l by simp
  have q2: "quiet st1 st2"
    using fetch_cover_quiet [of st1 sv track_data download_cover] c by simp
  have q12: "quiet st st2"
    by (rule quiet_trans [OF q1 q2])
  have q3: "quiet st2 st3"
    unfolding st3_def by (rule quiet_event) simp
  have q13: "quiet st st3"
    by (rule quiet_trans [OF q12 q3])
  have q4: "quiet st3 (save_beside sv filepath lyrics lrc_text save_lyrics save_subtitles
      (if ok then st3\<lparr>metadata_embedded := metadata_embedded st3 + 1\<rparr> else st3))" for ok
    by (cases ok) (auto intro: quiet_trans [OF _ save_beside_quiet])
  show ?thesis
  proof (cases cover)
    case (Inl e)
    then show ?thesis
      using q12 by (simp add: embed_body_def l c)
  next
    case (Inr cover_data)
    then have "embed_body sv filepath track_data track_id download_cover save_lyrics save_subtitles st =
        (case sv_embed_metadata sv filepath track_data lyrics cover_data lrc_text of
           Inl e \<Rightarrow> (Some e, st3)
         | Inr ok \<Rightarrow>
             (None, save_beside sv filepath lyrics lrc_text save_lyrics save_subtitles
                (if ok then st3\<lparr>metadata_embedded := metadata_embedded st3 + 1\<rparr> else st3)))"
      by (simp add: embed_body_def l c Let_def st3_def split: sum.splits)
    then show ?thesis
      using q13 quiet_trans [OF q13 q4] by (simp split: sum.splits)
  qed
qed

lemma embed_track_metadata_quiet:
  "quiet st (embed_track_metadata sv filepath track_data track_id download_cover save_lyrics save_subtitles st)"
  using embed_body_quiet [of st sv filepath track_data track_id download_cover save_lyrics save_subtitles]
  by (auto simp: embed_track_metadata_def split: prod.splits option.splits)

lemma save_without_metadata_quiet:
  "quiet st (save_without_metadata sv filepath track_id save_lyrics save_subtitles st)"
proof (cases "save_lyrics \<or> save_subtitles")
  case False
  then show ?thesis
    by (simp add: save_without_metadata_def)
next
  case True
  define st1 where "st1 = st\<lparr>trace := trace st @ [LyricsRequest track_id]\<rparr>"
  have q1: "quiet st st1"
    unfolding st1_def by (rule quiet_event) simp
  show ?thesis
  proof (cases "sv_get_lyrics sv track_id")
    case (Inl e)
    with True q1 show ?thesis
      by (simp add: save_without_metadata_def Let_def st1_def)
  next
    case (Inr lyrics_raw)
    show ?thesis
    proof (cases "truthy_str lyrics_raw")
      case False
      with True Inr q1 show ?thesis
        by (simp add: save_without_metadata_def Let_def st1_def)
    next
      case t: True
      show ?thesis
      proof (cases "sv_split_lyrics_formats sv (case lyrics_raw of Some l \<Rightarrow> l | None \<Rightarrow> [])")
        case (Inl e)
        with True Inr t q1 show ?thesis
          by (simp add: save_without_metadata_def Let_def st1_def)
      next
        case (Inr pl)
        obtain plain_text lrc_text where pl: "pl = (plain_text, lrc_text)"
          by (cases pl)
        let ?w = "if save_lyrics then
                   (if truthy_str lrc_text
                    then write_text sv (sv_with_suffix sv filepath (str ''.lrc''))
                           (case lrc_text of Some l \<Rightarrow> l | None \<Rightarrow> []) st1
                    else if truthy_str plain_text
                    then write_text sv (sv_with_suffix sv filepath (str ''.txt''))
                           (case plain_text of Some l \<Rightarrow> l | None \<Rightarrow> []) st1
                    else (None, st1))
                 else (None, st1)"
        have qw: "quiet st1 (snd ?w)"
          by (simp add: write_text_quiet)
        have eq: "save_without_metadata sv filepath track_id save_lyrics save_subtitles st =
             (case ?w of (Some e, st2) \<Rightarrow> st2
              | (None, st2) \<Rightarrow>
                  (if save_subtitles \<and> truthy_str lrc_text then
                     (case sv_lrc_to_srt sv (case lrc_text of Some l \<Rightarrow> l | None \<Rightarrow> []) of
                        Inl e \<Rightarrow> st2
                      | Inr srt_text \<Rightarrow>
                          if srt_text \<noteq> []
                          then snd (write_text sv (sv_with_suffix sv filepath (str ''.srt''))
                                      srt_text st2)
                          else st2)
                   else st2))"
          using True \<open>sv_get_lyrics sv track_id = Inr lyrics_raw\<close> t Inr pl
          by (simp add: save_without_metadata_def Let_def st1_def)
        have "quiet st1 (case ?w of (Some e, st2) \<Rightarrow> st2
              | (None, st2) \<Rightarrow>
                  (if save_subtitles \<and> truthy_str lrc_text then
                     (case sv_lrc_to_srt sv (case lrc_text of Some l \<Rightarrow> l | None \<Rightarrow> []) of
                        Inl e \<Rightarrow> st2
                      | Inr srt_text \<Rightarrow>
                          if srt_text \<noteq> []
                          then snd (write_text sv (sv_with_suffix sv filepath (str ''.srt''))
                                      srt_text st2)
                          else st2)
                   else st2))"
          by (rule pair_case_quiet [OF qw subtitles_quiet])
        then have "quiet st1 (save_without_metadata sv filepath track_id save_lyrics save_subtitles st)"
          by (simp only: eq)
        with q1 show ?thesis
          by (rule quiet_trans)
      qed
    qed
  qed
qed


lemma write_chunks_effect:
  "files st filepath = Some written \<Longrightarrow>
   write_chunks filepath chunks st =
     st\<lparr>files := (files st)(filepath \<mapsto> written @ concat chunks),
        trace := trace st @ map (FileWrite filepath) chunks,
        total_data_downloaded := total_data_downloaded st + int (sum_list (map length chunks))\<rparr>"
proof (induction chunks arbitrary: st written)
  case Nil
  then have "(files st)(filepath \<mapsto> written) = files st"
    by (simp add: map_upd_triv)
  then show ?case
    by simp
next
  case (Cons chunk chunks)
  show ?case
    using Cons.prems
    by (simp add: Cons.IH [where written = "written @ chunk"] add.assoc)
      (auto simp: fun_eq_iff)
qed

lemma after_write_effect:
  "sv_stat sv filepath = None \<Longrightarrow>
   fst (after_write sv a filepath track_data st) = None \<and>
   quiet (st\<lparr>successful_downloads := successful_downloads st + 1\<rparr>)
     (snd (after_write sv a filepath track_data st))"
  by (simp add: after_write_def Let_def embed_track_metadata_quiet save_without_metadata_quiet)

lemma after_write_stat_raises:
  "sv_stat sv filepath = Some e \<Longrightarrow> after_write sv a filepath track_data st = (Some e, st)"
  by (simp add: after_write_def)

text \<open>
  C9. Take a track whose record is found, whose stream answers 200, whose file is opened
  and receives every chunk without an exception, and whose size can then be read. Whatever
  the lyrics lookup, the test of the cover source, the cover download, the tag write and
  the side files do, exceptions included, \<open>download_track\<close> returns \<open>True\<close>: the
  successful-downloads counter is one higher, the failure counter is unchanged, every write
  of audio bytes comes before the first event of the embedding, and the file is still there
  with exactly the bytes streamed into it, unless a side file was written to that very path.
  When the body of the embedding raises, the state it had reached is the final state.
\<close>

theorem download_track_keeps_audio:
  assumes "sv_get_tracks sv (ta_track_id a) = Found track_data"
    and "\<not> track_empty track_data"
    and "resolve_quality sv a = Next quality"
    and "sv_get_stream_url sv (ta_track_id a) quality = Inr (Some stream_url)"
    and "stream_url \<noteq> []"
    and "dest_dir = (if truthy_str (ta_target_dir a)
                     then (case ta_target_dir a of Some d \<Rightarrow> d | None \<Rightarrow> [])
                     else download_path cfg)"
    and "sv_mkdir sv dest_dir = None"
    and "track_filename U sv a track_data quality = Inr filename"
    and "filepath = path_join dest_dir filename"
    and "sv_session_get sv stream_url = Inr response"
    and "sr_status response = 200"
    and "sv_open_wb sv filepath = None"
    and "sr_error response = None"
    and "sv_stat sv filepath = None"
  shows "fst (download_track U cfg sv a st) = True \<and>
         successful_downloads (snd (download_track U cfg sv a st)) = successful_downloads st + 1 \<and>
         failed_downloads (snd (download_track U cfg sv a st)) = failed_downloads st \<and>
         files (snd (download_track U cfg sv a st)) filepath \<noteq> None \<and>
         total_data_downloaded (snd (download_track U cfg sv a st)) =
           total_data_downloaded st + int (sum_list (map length (sr_chunks response))) \<and>
         (\<exists>later. trace (snd (download_track U cfg sv a st)) =
                    trace st @ map (FileWrite filepath) (sr_chunks response) @ later \<and>
                  list_all (\<lambda>e. \<not> is_file_write e) later \<and>
                  (files (snd (download_track U cfg sv a st)) filepath =
                     Some (concat (sr_chunks response)) \<or>
                   SidecarWrite filepath \<in> set later)) \<and>
         (\<forall>e st'. ta_embed_metadata a \<and>
            embed_body sv filepath track_data (ta_track_id a) (ta_download_cover a)
              (ta_save_lyrics a) (ta_save_subtitles a)
              ((write_chunks filepath (sr_chunks response)
                  (st\<lparr>files := (files st)(filepath \<mapsto> [])\<rparr>))
               \<lparr>successful_downloads := successful_downloads st + 1\<rparr>) = (Some e, st') \<longrightarrow>
            download_track U cfg sv a st = (True, st'))"
proof -
  define st1 where "st1 = write_chunks filepath (sr_chunks response)
      (st\<lparr>files := (files st)(filepath \<mapsto> [])\<rparr>)"
  define st2 where "st2 = st1\<lparr>successful_downloads := successful_downloads st + 1\<rparr>"
  define final where "final = snd (after_write sv a filepath track_data st1)"
  have s: "stream_to_disk U cfg sv a st = (Next (filepath, track_data), st1)"
    using assms by (simp add: stream_to_disk_def truthy_str_def Let_def st1_def)
  have st1: "st1 = st\<lparr>files := (files st)(filepath \<mapsto> concat (sr_chunks response)),
      trace := trace st @ map (FileWrite filepath) (sr_chunks response),
      total_data_downloaded := total_data_downloaded st + int (sum_list (map length (sr_chunks response)))\<rparr>"
    unfolding st1_def
    by (subst write_chunks_effect [where written = "[]"]) simp_all
  have aw: "fst (after_write sv a filepath track_data st1) = None"
    and q: "quiet st2 final"
    using after_write_effect [OF assms(14), of a track_data st1]
    by (simp_all add: st2_def final_def st1)
  have d: "download_track U cfg sv a st = (True, final)"
    using aw by (cases "after_write sv a filepath track_data st1")
      (simp add: download_track_def s final_def)
  have caught: "\<forall>e st'. ta_embed_metadata a \<and>
      embed_body sv filepath track_data (ta_track_id a) (ta_download_cover a)
        (ta_save_lyrics a) (ta_save_subtitles a) st2 = (Some e, st') \<longrightarrow>
      download_track U cfg sv a st = (True, st')"
    using assms(14)
    by (simp add: d final_def after_write_def embed_track_metadata_def Let_def st2_def st1)
  from q obtain later where later: "trace final = trace st2 @ later"
      "list_all (\<lambda>e. \<not> is_file_write e) later"
      "files final filepath = files st2 filepath \<or>
         (SidecarWrite filepath \<in> set later \<and> files final filepath \<noteq> None)"
    and counters: "successful_downloads final = successful_downloads st2"
      "failed_downloads final = failed_downloads st2"
      "total_data_downloaded final = total_data_downloaded st2"
    unfolding quiet_def by blast
  have f2: "files st2 filepath = Some (concat (sr_chunks response))"
    "trace st2 = trace st @ map (FileWrite filepath) (sr_chunks response)"
    "successful_downloads st2 = successful_downloads st + 1"
    "failed_downloads st2 = failed_downloads st"
    "total_data_downloaded st2 =
       total_data_downloaded st + int (sum_list (map length (sr_chunks response)))"
    by (simp_all add: st2_def st1)
  have kept: "files final filepath \<noteq> None"
    using later(3) f2(1) by auto
  have tr: "\<exists>later. trace final = trace st @ map (FileWrite filepath) (sr_chunks response) @ later \<and>
      list_all (\<lambda>e. \<not> is_file_write e) later \<and>
      (files final filepath = Some (concat (sr_chunks response)) \<or>
       SidecarWrite filepath \<in> set later)"
    using later f2(1,2) by auto
  show ?thesis
    using kept tr counters f2(3,4,5) caught
    unfolding d st2_def st1_def by simp
qed

text \<open>
  The same track when the size of the written file cannot be read: the exception is caught
  by the outer handler of \<open>download_track\<close>, before the success is counted.
\<close>

lemma download_track_stat_raises:
  assumes "sv_get_tracks sv (ta_track_id a) = Found track_data"
    and "\<not> track_empty track_data"
    and "resolve_quality sv a = Next quality"
    and "sv_get_stream_url sv (ta_track_id a) quality = Inr (Some stream_url)"
    and "stream_url \<noteq> []"
    and "dest_dir = (if truthy_str (ta_target_dir a)
                     then (case ta_target_dir a of Some d \<Rightarrow> d | None \<Rightarrow> [])
                     else download_path cfg)"
    and "sv_mkdir sv dest_dir = None"
    and "track_filename U sv a track_data quality = Inr filename"
    and "filepath = path_join dest_dir filename"
    and "sv_session_get sv stream_url = Inr response"
    and "sr_status response = 200"
    and "sv_open_wb sv filepath = None"
    and "sr_error response = None"
    and "sv_stat sv filepath = Some e"
  shows "fst (download_track U cfg sv a st) = False \<and>
         successful_downloads (snd (download_track U cfg sv a st)) = successful_downloads st \<and>
         failed_downloads (snd (download_track U cfg sv a st)) = failed_downloads st + 1"
proof -
  define st1 where "st1 = write_chunks filepath (sr_chunks response)
      (st\<lparr>files := (files st)(filepath \<mapsto> [])\<rparr>)"
  have s: "stream_to_disk U cfg sv a st = (Next (filepath, track_data), st1)"
    using assms by (simp add: stream_to_disk_def truthy_str_def Let_def st1_def)
  have st1: "successful_downloads st1 = successful_downloads st"
    "failed_downloads st1 = failed_downloads st"
    unfolding st1_def
    by (subst write_chunks_effect [where written = "[]"], simp, simp)+
  show ?thesis
    by (simp add: download_track_def s after_write_stat_raises [OF assms(14)] st1)
qed

theorem download_track_keeps_audio_witness:
  "fst (download_track ascii_db demo_config demo_service demo_args new_bot) = True \<and>
   successful_downloads (snd (download_track ascii_db demo_config demo_service demo_args new_bot)) = 1 \<and>
   failed_downloads (snd (download_track ascii_db demo_config demo_service demo_args new_bot)) = 0 \<and>
   files (snd (download_track ascii_db demo_config demo_service demo_args new_bot))
     (str ''./downloads/Artist - Song.mp3'') = Some [1, 2, 3, 4, 5] \<and>
   total_data_downloaded (snd (download_track ascii_db demo_config demo_service demo_args new_bot)) = 5 \<and>
   fst (embed_body demo_service (str ''./downloads/Artist - Song.mp3'') demo_track 1 True True True
          new_bot) = Some OtherException \<and>
   fst (download_track ascii_db demo_config demo_service_null_image demo_args new_bot) = True \<and>
   embed_body demo_service_null_image (str ''./downloads/Artist - Song.mp3'')
     (demo_track\<lparr>td_image := ImageOther\<rparr>) 1 True True True new_bot =
     (Some OtherException, new_bot\<lparr>trace := [LyricsRequest 1]\<rparr>)"
proof -
  let ?path = "str ''./downloads/Artist - Song.mp3''"
  let ?resp = "\<lparr>sr_status = 200, sr_chunks = [[1, 2, 3], [4, 5]], sr_error = None\<rparr>"
  have name: "track_filename ascii_db sv demo_args td (str ''high'') = Inr (str ''Artist - Song.mp3'')"
    if "sv_get_file_extension_for_quality sv = (\<lambda>quality. str ''.mp3'')"
      and "td_artist_names td = Some [str ''Artist'']" and "td_title td = Some (str ''Song'')"
    for sv td
    using that
    by (simp add: track_filename_def demo_args_def truthy_str_def
        sanitize_base_name_def keep_in_filename_def rstrip_def isalnum_def isspace_def str_def)
  have n1: "track_filename ascii_db demo_service demo_args demo_track (str ''high'')
      = Inr (str ''Artist - Song.mp3'')"
    by (rule name) (simp_all add: demo_service_def demo_track_def)
  have n2: "track_filename ascii_db demo_service_null_image demo_args
       (demo_track\<lparr>td_image := ImageOther\<rparr>) (str ''high'') = Inr (str ''Artist - Song.mp3'')"
    by (rule name) (simp_all add: demo_service_null_image_def demo_service_def demo_track_def)
  have q1: "resolve_quality demo_service demo_args = Next (str ''high'')"
    by (simp add: resolve_quality_def demo_service_def demo_args_def str_def)
  have q2: "resolve_quality demo_service_null_image demo_args = Next (str ''high'')"
    by (simp add: resolve_quality_def demo_service_null_image_def demo_service_def demo_args_def
        str_def)
  have pj: "path_join (str ''./downloads'') (str ''Artist - Song.mp3'') = ?path"
    by (simp add: path_join_def str_def)
  have body: "fst (embed_body demo_service ?path demo_track 1 True True True new_bot)
      = Some OtherException"
    by (simp add: embed_body_def fetch_lyrics_def fetch_cover_def demo_service_def demo_track_def
        truthy_str_def Let_def str_def)
  have body2: "embed_body demo_service_null_image ?path (demo_track\<lparr>td_image := ImageOther\<rparr>)
      1 True True True new_bot = (Some OtherException, new_bot\<lparr>trace := [LyricsRequest 1]\<rparr>)"
    by (simp add: embed_body_def fetch_lyrics_def fetch_cover_def demo_service_null_image_def
        demo_service_def demo_track_def truthy_str_def Let_def new_bot_def)
  from download_track_keeps_audio [where U = ascii_db and cfg = demo_config and sv = demo_service
      and a = demo_args and st = new_bot and track_data = demo_track and quality = "str ''high''"
      and stream_url = "str ''https://cdn/stream''" and dest_dir = "str ''./downloads''"
      and filename = "str ''Artist - Song.mp3''" and filepath = ?path and response = ?resp,
      OF _ _ q1 _ _ _ _ n1 pj [symmetric]]
  have main: "fst (download_track ascii_db demo_config demo_service demo_args new_bot) = True \<and>
   successful_downloads (snd (download_track ascii_db demo_config demo_service demo_args new_bot)) = 1 \<and>
   failed_downloads (snd (download_track ascii_db demo_config demo_service demo_args new_bot)) = 0 \<and>
   total_data_downloaded (snd (download_track ascii_db demo_config demo_service demo_args new_bot)) = 5"
    by (simp add: demo_service_def demo_args_def demo_config_def demo_track_def new_bot_def
        truthy_str_def track_empty_def str_def)
  have sv: "sv_get_tracks demo_service t = Found demo_track"
    "sv_get_stream_url demo_service 1 (str ''high'') = Inr (Some (str ''https://cdn/stream''))"
    "sv_mkdir demo_service p = None" "sv_open_wb demo_service p = None"
    "sv_stat demo_service p = None"
    "sv_session_get demo_service u = Inr ?resp"
    "sv_get_lyrics demo_service t = Inl TimeoutError"
    "sv_download_cover_art demo_service u = Inl OtherException"
    "sv_embed_metadata demo_service p td l c r = Inl OtherException" for t p u td l c r
    by (simp_all add: demo_service_def)
  have ar: "ta_track_id demo_args = 1" "ta_target_dir demo_args = None" "ta_embed_metadata demo_args"
    "ta_download_cover demo_args" "download_path demo_config = str ''./downloads''"
    "\<not> track_empty demo_track"
    "td_image demo_track = ImageDict (Some (str ''https://cdn/cover''))"
    by (simp_all add: demo_args_def demo_config_def demo_track_def track_empty_def)
  have url: "str ''https://cdn/stream'' \<noteq> []" "str ''https://cdn/cover'' \<noteq> []"
    by (simp_all add: str_def)
  have content: "files (snd (download_track ascii_db demo_config demo_service demo_args new_bot))
      ?path = Some [1, 2, 3, 4, 5]"
    by (simp add: download_track_def stream_to_disk_def q1 n1 pj after_write_def
        embed_track_metadata_def embed_body_def fetch_lyrics_def fetch_cover_def Let_def
        truthy_str_def sv ar url)
  from download_track_keeps_audio [where U = ascii_db and cfg = demo_config
      and sv = demo_service_null_image
      and a = demo_args and st = new_bot and track_data = "demo_track\<lparr>td_image := ImageOther\<rparr>"
      and quality = "str ''high''"
      and stream_url = "str ''https://cdn/stream''" and dest_dir = "str ''./downloads''"
      and filename = "str ''Artist - Song.mp3''" and filepath = ?path and response = ?resp,
      OF _ _ q2 _ _ _ _ n2 pj [symmetric]]
  have null: "fst (download_track ascii_db demo_config demo_service_null_image demo_args new_bot) = True"
    by (simp add: demo_service_null_image_def demo_service_def demo_args_def demo_config_def
        demo_track_def truthy_str_def track_empty_def str_def)
  from main content body null body2 show ?thesis
    by (intro conjI) simp_all
qed


subsection \<open>Releases\<close>










subsection \<open>Fallback to a lower quality\<close>

lemma requested_add_metadata [simp]:
  "requested (add_metadata w p ti st) = requested st"
  by (simp add: add_metadata_def split: option.splits)

lemma saved_add_metadata [simp]:
  "saved (add_metadata w p ti st) = saved st"
  by (simp add: add_metadata_def split: option.splits)

lemma path_join_no_slash:
  "47 \<notin> set name \<Longrightarrow> path_join dir name = dir @ str ''/'' @ name"
  by (cases name) (auto simp: path_join_def)

lemma mp3_name_suffix:
  "suffix (str ''.mp3'')
     (path_join dir (map (\<lambda>c. if c = 47 then 95 else c) (name @ str ''.'' @ str ''mp3'')))"
proof -
  have "47 \<notin> set (map (\<lambda>c. if c = 47 then 95 else c) (name @ str ''.'' @ str ''mp3''))"
    by (auto simp: str_def)
  then have "path_join dir (map (\<lambda>c. if c = 47 then 95 else c) (name @ str ''.'' @ str ''mp3''))
      = dir @ str ''/'' @ map (\<lambda>c. if c = 47 then 95 else c) (name @ str ''.'' @ str ''mp3'')"
    by (rule path_join_no_slash)
  also have "\<dots> = (dir @ str ''/'' @ map (\<lambda>c. if c = 47 then 95 else c) name) @ str ''.mp3''"
    by (simp add: str_def)
  finally show ?thesis
    by (simp only: suffix_def) blast
qed

text \<open>
  C3. FLAC is preferred and the track has no FLAC. With the fallback on, the tier is \<open>high\<close>:
  the stream is looked up at \<open>high\<close> and, when the lookup and the download succeed, an mp3 file
  is saved. With the fallback off, nothing is requested and the track id is appended to the
  failure list. The bot has no such switch: when the asked tier is not available it takes
  the best available one, here \<open>high\<close>.
\<close>

theorem downloader_flac_unavailable:
  assumes "preferred_format config = str ''flac''"
    and "ti_has_flac track_info \<noteq> Some True"
  shows "available_format track_info = str ''high'' \<and>
         (ta_embed_metadata a \<and> sv_check_track_qualities sv (ta_track_id a) = Inr quality_results \<and>
          \<not> quality_results (ta_quality a) \<and>
          sv_get_best_available_quality sv quality_results = Some (str ''high'') \<longrightarrow>
            resolve_quality sv a = Next (str ''high'')) \<and>
         (cfg_fallback_to_lower_quality config \<longrightarrow>
            (\<exists>later. requested (downloader_download_track config w (Some track_info) st) =
                       requested st @ StreamLookup (ti_id track_info) (str ''high'') # later) \<and>
            (\<forall>track_url audio.
               web_stream w (ti_id track_info) (str ''high'') = Inr track_url \<and>
               ti_artist_names track_info \<noteq> [] \<and> web_fetch w track_url = Inr audio \<longrightarrow>
               requested (downloader_download_track config w (Some track_info) st) =
                 requested st @ [StreamLookup (ti_id track_info) (str ''high''), Fetch track_url] \<and>
               (\<exists>file_path. saved (downloader_download_track config w (Some track_info) st) =
                               saved st @ [file_path] \<and>
                            suffix (str ''.mp3'') file_path))) \<and>
         (\<not> cfg_fallback_to_lower_quality config \<longrightarrow>
            downloader_download_track config w (Some track_info) st =
              st\<lparr>failed_tracks := failed_tracks st @ [ti_id track_info]\<rparr>)"
proof -
  have av: "available_format track_info = str ''high''"
    using assms(2) by (cases "ti_has_flac track_info") (auto simp: available_format_def)
  have bot: "ta_embed_metadata a \<and> sv_check_track_qualities sv (ta_track_id a) = Inr quality_results \<and>
      \<not> quality_results (ta_quality a) \<and>
      sv_get_best_available_quality sv quality_results = Some (str ''high'') \<longrightarrow>
        resolve_quality sv a = Next (str ''high'')"
    by (simp add: resolve_quality_def str_def)
  have ne: "str ''flac'' \<noteq> str ''high''" "str ''high'' \<noteq> str ''flac''"
    by (simp_all add: str_def)
  have skip: "\<not> cfg_fallback_to_lower_quality config \<longrightarrow>
      downloader_download_track config w (Some track_info) st =
        st\<lparr>failed_tracks := failed_tracks st @ [ti_id track_info]\<rparr>"
    by (simp add: downloader_download_track_def Let_def av assms(1) ne)
  have req: "cfg_fallback_to_lower_quality config \<longrightarrow>
      (\<exists>later. requested (downloader_download_track config w (Some track_info) st) =
                 requested st @ StreamLookup (ti_id track_info) (str ''high'') # later)"
    by (auto simp: downloader_download_track_def Let_def av assms(1) ne
        split: sum.splits list.splits)
  have ok: "cfg_fallback_to_lower_quality config \<longrightarrow>
      (\<forall>track_url audio.
         web_stream w (ti_id track_info) (str ''high'') = Inr track_url \<and>
         ti_artist_names track_info \<noteq> [] \<and> web_fetch w track_url = Inr audio \<longrightarrow>
         requested (downloader_download_track config w (Some track_info) st) =
           requested st @ [StreamLookup (ti_id track_info) (str ''high''), Fetch track_url] \<and>
         (\<exists>file_path. saved (downloader_download_track config w (Some track_info) st) =
                         saved st @ [file_path] \<and>
                      suffix (str ''.mp3'') file_path))"
    using mp3_name_suffix [of _ "_ @ str '' - '' @ ti_title track_info"]
    by (auto simp: downloader_download_track_def Let_def av assms(1) ne neq_Nil_conv)
  from av bot req ok skip show ?thesis
    by blast
qed

theorem downloader_flac_unavailable_witness:
  "downloader_download_track
     \<lparr>cfg_format = Some (str ''1''), cfg_lyrics = False, cfg_fallback_to_lower_quality = True,
      cfg_download_path = None\<rparr> demo_web (Some demo_track_info) new_downloader =
     \<lparr>failed_tracks = [],
      requested = [StreamLookup 116136641 (str ''high''), Fetch (str ''https://cdn/high'')],
      saved = [str ''./music/Artist - Song.mp3'']\<rparr> \<and>
   downloader_download_track
     \<lparr>cfg_format = Some (str ''1''), cfg_lyrics = False, cfg_fallback_to_lower_quality = False,
      cfg_download_path = None\<rparr> demo_web (Some demo_track_info) new_downloader =
     \<lparr>failed_tracks = [116136641], requested = [], saved = []\<rparr> \<and>
   resolve_quality demo_service demo_args = Next (str ''high'')"
proof -
  note defs = preferred_format_def available_format_def demo_track_info_def demo_web_def
    new_downloader_def demo_service_def demo_args_def str_def
  have on: "downloader_download_track
     \<lparr>cfg_format = Some (str ''1''), cfg_lyrics = False, cfg_fallback_to_lower_quality = True,
      cfg_download_path = None\<rparr> demo_web (Some demo_track_info) new_downloader =
     \<lparr>failed_tracks = [],
      requested = [StreamLookup 116136641 (str ''high''), Fetch (str ''https://cdn/high'')],
      saved = [str ''./music/Artist - Song.mp3'']\<rparr>"
    by (simp add: downloader_download_track_def add_metadata_def path_join_def Let_def defs)
  have off: "downloader_download_track
     \<lparr>cfg_format = Some (str ''1''), cfg_lyrics = False, cfg_fallback_to_lower_quality = False,
      cfg_download_path = None\<rparr> demo_web (Some demo_track_info) new_downloader =
     \<lparr>failed_tracks = [116136641], requested = [], saved = []\<rparr>"
    using downloader_flac_unavailable [where config = "\<lparr>cfg_format = Some (str ''1''),
        cfg_lyrics = False, cfg_fallback_to_lower_quality = False, cfg_download_path = None\<rparr>"
      and track_info = demo_track_info and w = demo_web and st = new_downloader
      and a = demo_args and sv = demo_service and quality_results = "\<lambda>quality. quality = str ''high''"]
    by (simp add: defs)
  have res: "resolve_quality demo_service demo_args = Next (str ''high'')"
    using downloader_flac_unavailable [where config = "\<lparr>cfg_format = Some (str ''1''),
        cfg_lyrics = False, cfg_fallback_to_lower_quality = True, cfg_download_path = None\<rparr>"
      and track_info = demo_track_info and w = demo_web and st = new_downloader
      and a = demo_args and sv = demo_service and quality_results = "\<lambda>quality. quality = str ''high''"]
    by (simp add: defs)
  from on off res show ?thesis
    by (intro conjI)
qed

end
